theory Spec2Isabelle
  imports Main "HOL-Library.AList"
begin

section \<open>Agent composition: schema projection and the function adapter\<close>

text \<open>
  A JavaScript string is modelled as a \<^typ>\<open>string\<close> whose elements stand for the
  string's code units, so that \<^const>\<open>length\<close> is the source's \<open>.length\<close>.
  An argument object, which the source only spreads, is the map of its own properties;
  an object on which the source tests \<open>key in obj\<close> also carries what it inherits; an
  object whose key order is observable through \<open>Object.keys\<close> is an association list
  in insertion order.
\<close>

subsection \<open>Data model\<close>

text \<open>
  \<open>AxFunctionJSONSchema\<close>, with the fields the source reads and writes. A field that
  the TypeScript type marks optional is an \<open>option\<close>; \<open>None\<close> is \<open>undefined\<close>.
\<close>

datatype schema = Schema
  (type: string)
  (properties: "(string \<times> schema) list option")
  (required: "string list option")
  (enum: "string list option")
  (description: "string option")

text \<open>One entry of \<open>AxAIModelList\<close>.\<close>

record model_item =
  key :: string
  model :: string
  description_m :: string

text \<open>
  \<open>AxFunction\<close>. An invocation takes the argument object and the runtime options and
  yields what it wrote to standard output together with its result.
\<close>

record function_info =
  name :: string
  description_f :: string
  parameters :: "schema option"

record ('v, 'o, 'r) ax_function = function_info +
  func :: "(string \<rightharpoonup> 'v) \<Rightarrow> 'o \<Rightarrow> string list \<times> 'r"

text \<open>The options object of \<open>processChildAgentFunction\<close>.\<close>

record process_options =
  debug :: bool
  disableSmartModelRouting :: bool
  excludeFieldsFromPassthrough :: "string list"
  canConfigureSmartModelRouting :: bool

subsection \<open>Schema projector\<close>

text \<open>\<open>Array.prototype.join\<close> on strings.\<close>

fun join :: "string \<Rightarrow> string list \<Rightarrow> string" where
  "join sep [] = []"
| "join sep [x] = x"
| "join sep (x # y # ys) = x @ sep @ join sep (y # ys)"

text \<open>
  \<open>addModelParameter\<close>. \<open>structuredClone\<close> of a value is the value. A property value is
  a schema object, hence truthy, so \<open>baseSchema.properties?.model\<close> tests whether the
  key is present.
\<close>

definition modelProperty :: "model_item list \<Rightarrow> schema" where
  "modelProperty models =
     Schema ''string'' None None (Some (map key models))
       (Some (''The AI model to use for this function call. Available options: ''
              @ join '', '' (map (\<lambda>m. ''`'' @ key m @ ''` '' @ description_m m) models)))"

definition addModelParameter :: "schema option \<Rightarrow> model_item list \<Rightarrow> schema" where
  "addModelParameter params models =
     (let baseSchema = (case params of
                          Some p \<Rightarrow> p
                        | None \<Rightarrow> Schema ''object'' (Some []) (Some []) None None)
      in if (case properties baseSchema of
               Some props \<Rightarrow> map_of props ''model'' \<noteq> None
             | None \<Rightarrow> False)
         then baseSchema
         else
           (let newProperties =
                  AList.update ''model'' (modelProperty models)
                    (case properties baseSchema of Some props \<Rightarrow> props | None \<Rightarrow> []);
                newRequired =
                  (case required baseSchema of Some r \<Rightarrow> r | None \<Rightarrow> []) @ [''model'']
            in Schema (type baseSchema) (Some newProperties) (Some newRequired)
                 (enum baseSchema) (description baseSchema)))"

text \<open>
  \<open>removePropertiesFromSchema\<close>. The \<open>delete\<close> loop removes every listed key from the
  clone's properties; \<open>required\<close> is filtered only when it is an array.
\<close>

definition removePropertiesFromSchema :: "schema \<Rightarrow> string list \<Rightarrow> schema" where
  "removePropertiesFromSchema sch keys =
     Schema (type sch)
       (case properties sch of
          Some props \<Rightarrow> Some (fold AList.delete keys props)
        | None \<Rightarrow> None)
       (case required sch of
          Some req \<Rightarrow> Some (filter (\<lambda>r. r \<notin> set keys) req)
        | None \<Rightarrow> None)
       (enum sch) (description sch)"

text \<open>
  The properties of a schema and their keys, the required keys, and the schema
  invariant of the data model.
\<close>

definition propertiesOf :: "schema \<Rightarrow> (string \<times> schema) list" where
  "propertiesOf sch = (case properties sch of Some props \<Rightarrow> props | None \<Rightarrow> [])"

definition propertyKeys :: "schema \<Rightarrow> string list" where
  "propertyKeys sch = map fst (propertiesOf sch)"

definition requiredKeys :: "schema \<Rightarrow> string list" where
  "requiredKeys sch = (case required sch of Some req \<Rightarrow> req | None \<Rightarrow> [])"

definition required_in_properties :: "schema \<Rightarrow> bool" where
  "required_in_properties sch = (set (requiredKeys sch) \<subseteq> set (propertyKeys sch))"

subsection \<open>Function adapter\<close>

text \<open>
  An object that is read with \<open>key in obj\<close> and \<open>obj[key]\<close>: its own properties, and
  for every name it inherits through its prototype chain the value that reading the name
  yields. For an object literal the inherited names are the members of
  \<open>Object.prototype\<close>, among them \<open>constructor\<close>, \<open>toString\<close>, \<open>valueOf\<close> and the
  accessor \<open>__proto__\<close>.
\<close>

record 'v js_object =
  own :: "string \<rightharpoonup> 'v"
  inherited :: "string \<rightharpoonup> 'v"

text \<open>\<open>key in obj\<close> and \<open>obj[key]\<close>; an own property shadows an inherited one.\<close>

definition hasProperty :: "'v js_object \<Rightarrow> string \<Rightarrow> bool" where
  "hasProperty obj k = (own obj k \<noteq> None \<or> inherited obj k \<noteq> None)"

definition getProperty :: "'v js_object \<Rightarrow> string \<Rightarrow> 'v option" where
  "getProperty obj k = (case own obj k of Some v \<Rightarrow> Some v | None \<Rightarrow> inherited obj k)"

text \<open>
  What the runtime does with a value that is assigned to \<open>__proto__\<close> of an object
  that inherits the accessor of \<open>Object.prototype\<close>: a value that is neither an object
  nor \<open>null\<close> is ignored; an object becomes the prototype, and the accessor is still
  inherited through it or, as after \<open>null\<close>, it is not. Property values are data:
  objects among them have writable data properties only.
\<close>

datatype proto_effect = Ignored | KeepsAccessor | LosesAccessor

text \<open>
  The JavaScript runtime as far as the adapter needs it: \<open>stringify\<close> stands for
  \<open>JSON.stringify(_, null, 2)\<close>.
\<close>

record 'v js_runtime =
  stringify :: "(string \<rightharpoonup> 'v) \<Rightarrow> string"
  protoEffect :: "'v \<Rightarrow> proto_effect"

text \<open>
  \<open>result[key] = v\<close> on the object that \<open>pick\<close> builds from \<open>{}\<close>. The state is the
  own properties of that object and whether it still inherits the \<open>__proto__\<close>
  accessor. While it does, an assignment to \<open>__proto__\<close> calls the accessor and creates
  no property; every other assignment creates or updates an own property.
\<close>

definition assignProperty ::
  "('v \<Rightarrow> proto_effect) \<Rightarrow> string \<Rightarrow> 'v \<Rightarrow> (string \<rightharpoonup> 'v) \<times> bool
     \<Rightarrow> (string \<rightharpoonup> 'v) \<times> bool" where
  "assignProperty effect k v st =
     (case st of
        (result, accessor) \<Rightarrow>
          if k = ''__proto__'' \<and> accessor
          then (result, effect v \<noteq> LosesAccessor)
          else (result(k \<mapsto> v), accessor))"

text \<open>
  \<open>pick\<close>: the body of the loop over the keys, which assigns a key that is \<open>in\<close>
  the object, and the loop from the empty object; the result is spread by the caller,
  which copies its own properties.
\<close>

definition pickStep ::
  "('v \<Rightarrow> proto_effect) \<Rightarrow> 'v js_object \<Rightarrow> string \<Rightarrow> (string \<rightharpoonup> 'v) \<times> bool
     \<Rightarrow> (string \<rightharpoonup> 'v) \<times> bool" where
  "pickStep effect obj k st =
     (if hasProperty obj k
      then (case getProperty obj k of Some v \<Rightarrow> assignProperty effect k v st | None \<Rightarrow> st)
      else st)"

definition pick ::
  "('v \<Rightarrow> proto_effect) \<Rightarrow> 'v js_object \<Rightarrow> string list \<Rightarrow> (string \<rightharpoonup> 'v)" where
  "pick effect obj keys = fst (fold (pickStep effect obj) keys (Map.empty, True))"

text \<open>
  \<open>processChildAgentFunction\<close>. The first \<open>if\<close> returns for every callable that has
  a parameter schema; the model routing below it is reached only when \<open>parameters\<close>
  is undefined.
\<close>

definition injectionKeysOf :: "schema \<Rightarrow> string list \<Rightarrow> string list \<Rightarrow> string list" where
  "injectionKeysOf ps parentInputKeys excluded =
     (let childKeys = (case properties ps of Some props \<Rightarrow> map fst props | None \<Rightarrow> []);
          commonKeys = filter (\<lambda>k. k \<noteq> ''model'')
                         (filter (\<lambda>k. k \<in> set childKeys) parentInputKeys)
      in filter (\<lambda>k. k \<notin> set excluded) commonKeys)"

definition processChildAgentFunction ::
  "'v js_runtime \<Rightarrow> ('v, 'o, 'r) ax_function \<Rightarrow> 'v js_object \<Rightarrow> string list
     \<Rightarrow> model_item list option \<Rightarrow> process_options \<Rightarrow> ('v, 'o, 'r) ax_function" where
  "processChildAgentFunction js childFunction parentValues parentInputKeys modelList opts =
     (let processedFunction = childFunction
      in case parameters processedFunction of
           Some ps \<Rightarrow>
             (let injectionKeys =
                    injectionKeysOf ps parentInputKeys (excludeFieldsFromPassthrough opts)
              in if length injectionKeys > 0
                 then
                   (let originalFunc = func processedFunction
                    in processedFunction
                         \<lparr> parameters := Some (removePropertiesFromSchema ps injectionKeys),
                           func := (\<lambda>childArgs funcOptions.
                             let updatedChildArgs =
                                   childArgs ++ pick (protoEffect js) parentValues injectionKeys;
                                 written = (if debug opts \<and> length injectionKeys > 0
                                            then [''Function Params: ''
                                                  @ stringify js updatedChildArgs]
                                            else []);
                                 (out, res) = originalFunc updatedChildArgs funcOptions
                             in (written @ out, res)) \<rparr>)
                 else processedFunction)
         | None \<Rightarrow>
             (if modelList \<noteq> None \<and> \<not> disableSmartModelRouting opts
                 \<and> canConfigureSmartModelRouting opts
              then processedFunction
                     \<lparr> parameters :=
                         Some (addModelParameter (parameters processedFunction) (the modelList)) \<rparr>
              else processedFunction))"

subsection \<open>Agent\<close>

text \<open>Every \<open>throw new Error(msg)\<close> and \<open>throw {message: msg}\<close> is an \<open>Error msg\<close>.\<close>

datatype error = Error (message: string)

text \<open>
  What the source uses of an \<open>AxAIService\<close>: \<open>getModelList()\<close> and
  \<open>getOptions()?.debug\<close>.
\<close>

record ai_service =
  getModelList :: "model_item list option"
  getOptions_debug :: "bool option"

record agent_features =
  canConfigureSmartModelRouting_ft :: bool
  excludeFieldsFromPassthrough_ft :: "string list"

text \<open>An \<open>AxAgentic\<close> child, as the results of its \<open>getFunction()\<close> and \<open>getFeatures()\<close>.\<close>

record ('v, 'o, 'r) agentic =
  getFunction :: "('v, 'o, 'r) ax_function"
  getFeatures :: agent_features

text \<open>The two fields of \<open>AxAgentOptions\<close> that the agent reads itself.\<close>

record agent_options =
  disableSmartModelRouting_o :: "bool option"
  excludeFieldsFromPassthrough_o :: "string list option"

text \<open>The first argument of the constructor.\<close>

record ('i, 'v, 'o, 'r) agent_args =
  arg_ai :: "ai_service option"
  arg_name :: string
  arg_description :: string
  arg_signature :: 'i
  arg_agents :: "('v, 'o, 'r) agentic list option"
  arg_functions :: "('v, 'o, 'r) ax_function list option"

text \<open>
  The classes \<open>AxSignature\<close> and \<open>AxGen\<close> are imported by the source and are parameters
  here: \<open>newSignature i d\<close> stands for \<open>new AxSignature(i)\<close> followed by
  \<open>setDescription(d)\<close>, \<open>newProgram sg cs\<close> for \<open>new AxGen(sg, options)\<close> followed by
  \<open>register\<close> of every child agent; either may throw.
\<close>

record ('i, 'sg, 'p, 'v, 'o, 'r) agent_env =
  newSignature :: "'i \<Rightarrow> string \<Rightarrow> error + 'sg"
  toJSONSchema :: "'sg \<Rightarrow> schema"
  getInputFieldNames :: "'sg \<Rightarrow> string list"
  newProgram :: "'sg \<Rightarrow> ('v, 'o, 'r) agentic list \<Rightarrow> error + 'p"

text \<open>
  The private fields of \<open>AxAgent\<close>. \<open>agent_func\<close> holds the data fields of
  \<open>this.func\<close>; its closure \<open>() => this.forward\<close> is not represented.
\<close>

record ('sg, 'p, 'v, 'o, 'r) agent =
  agent_ai :: "ai_service option"
  agent_signature :: 'sg
  agent_program :: 'p
  agent_functions :: "('v, 'o, 'r) ax_function list option"
  agent_agents :: "('v, 'o, 'r) agentic list option"
  agent_disableSmartModelRouting :: "bool option"
  agent_excludeFieldsFromPassthrough :: "string list"
  agent_name :: string
  agent_description :: string
  agent_subAgentList :: "string option"
  agent_func :: function_info

text \<open>
  \<open>toCamelCase\<close>. The words are the pieces between characters outside
  \<open>[a-zA-Z0-9]\<close>, so case conversion only ever meets ASCII letters and digits.
\<close>

definition isAlphaNumeric :: "char \<Rightarrow> bool" where
  "isAlphaNumeric c =
     (let n = (of_char c :: nat)
      in (48 \<le> n \<and> n \<le> 57) \<or> (65 \<le> n \<and> n \<le> 90) \<or> (97 \<le> n \<and> n \<le> 122))"

definition toLowerCase :: "char \<Rightarrow> char" where
  "toLowerCase c =
     (let n = (of_char c :: nat) in if 65 \<le> n \<and> n \<le> 90 then char_of (n + 32) else c)"

definition toUpperCase :: "char \<Rightarrow> char" where
  "toUpperCase c =
     (let n = (of_char c :: nat) in if 97 \<le> n \<and> n \<le> 122 then char_of (n - 32) else c)"

fun splitWords :: "string \<Rightarrow> string list" where
  "splitWords [] = [[]]"
| "splitWords (c # cs) =
     (if isAlphaNumeric c
      then (case splitWords cs of w # ws \<Rightarrow> (c # w) # ws | [] \<Rightarrow> [[c]])
      else [] # splitWords cs)"

definition toCamelCase :: "string \<Rightarrow> string" where
  "toCamelCase inputString =
     (let words = splitWords inputString
      in concat (map (\<lambda>(index, word).
                   let lowerWord = map toLowerCase word
                   in (case lowerWord of
                         c # rest \<Rightarrow> if index > 0 then toUpperCase c # rest else lowerWord
                       | [] \<Rightarrow> lowerWord))
                 (enumerate (0::nat) words)))"

text \<open>The constructor of \<open>AxAgent\<close>, in the source's order of effects.\<close>

definition newAxAgent ::
  "('i, 'sg, 'p, 'v, 'o, 'r) agent_env \<Rightarrow> ('i, 'v, 'o, 'r) agent_args \<Rightarrow> agent_options option
     \<Rightarrow> error + ('sg, 'p, 'v, 'o, 'r) agent" where
  "newAxAgent env args opts =
     (let disable = (case opts of Some os \<Rightarrow> disableSmartModelRouting_o os | None \<Rightarrow> None);
          exclude = (case opts of
                       Some os \<Rightarrow> (case excludeFieldsFromPassthrough_o os of
                                     Some xs \<Rightarrow> xs | None \<Rightarrow> [])
                     | None \<Rightarrow> [])
      in case newSignature env (arg_signature args) (arg_description args) of
           Inl e \<Rightarrow> Inl e
         | Inr sg \<Rightarrow>
             if arg_name args = [] \<or> length (arg_name args) < 5
             then Inl (Error (''Agent name must be at least 10 characters (more descriptive): ''
                              @ arg_name args))
             else if arg_description args = [] \<or> length (arg_description args) < 20
             then Inl (Error (''Agent description must be at least 20 characters (explain in detail what the agent does): ''
                              @ arg_description args))
             else
               (case newProgram env sg (case arg_agents args of Some as \<Rightarrow> as | None \<Rightarrow> []) of
                  Inl e \<Rightarrow> Inl e
                | Inr prog \<Rightarrow>
                    (let f = \<lparr> name = toCamelCase (arg_name args),
                               description_f = arg_description args,
                               parameters = Some (toJSONSchema env sg) \<rparr>;
                         mm = (case arg_ai args of Some a \<Rightarrow> getModelList a | None \<Rightarrow> None)
                     in Inr \<lparr> agent_ai = arg_ai args,
                              agent_signature = sg,
                              agent_program = prog,
                              agent_functions = arg_functions args,
                              agent_agents = arg_agents args,
                              agent_disableSmartModelRouting = disable,
                              agent_excludeFieldsFromPassthrough = exclude,
                              agent_name = arg_name args,
                              agent_description = arg_description args,
                              agent_subAgentList =
                                map_option (\<lambda>as. join '', '' (map (\<lambda>a. name (getFunction a)) as))
                                  (arg_agents args),
                              agent_func =
                                (case mm of
                                   Some ml \<Rightarrow>
                                     if disable \<noteq> Some True
                                     then f\<lparr> parameters := Some (addModelParameter (parameters f) ml) \<rparr>
                                     else f
                                 | None \<Rightarrow> f) \<rparr>)))"

definition agentFeatures :: "('sg, 'p, 'v, 'o, 'r) agent \<Rightarrow> agent_features" where
  "agentFeatures this =
     \<lparr> canConfigureSmartModelRouting_ft = (agent_ai this = None),
       excludeFieldsFromPassthrough_ft = agent_excludeFieldsFromPassthrough this \<rparr>"

text \<open>
  \<open>init\<close>: the effective service and the assembled callables. \<open>optionsFunctions\<close> is
  \<open>options?.functions\<close>.
\<close>

definition init ::
  "('i, 'sg, 'p, 'v, 'o, 'r) agent_env \<Rightarrow> 'v js_runtime
     \<Rightarrow> ('sg, 'p, 'v, 'o, 'r) agent \<Rightarrow> ai_service \<Rightarrow> 'v js_object
     \<Rightarrow> ('v, 'o, 'r) ax_function list option
     \<Rightarrow> ai_service \<times> ('v, 'o, 'r) ax_function list" where
  "init env js this parentAi vals optionsFunctions =
     (let ai = (case agent_ai this of Some a \<Rightarrow> a | None \<Rightarrow> parentAi);
          mm = getModelList ai;
          parentKeys = getInputFieldNames env (agent_signature this);
          agentFuncs =
            map_option
              (map (\<lambda>agent.
                 let f = getFeatures agent;
                     processOptions =
                       \<lparr> debug = (case getOptions_debug ai of Some d \<Rightarrow> d | None \<Rightarrow> False),
                         disableSmartModelRouting =
                           (agent_disableSmartModelRouting this = Some True),
                         excludeFieldsFromPassthrough = excludeFieldsFromPassthrough_ft f,
                         canConfigureSmartModelRouting = canConfigureSmartModelRouting_ft f \<rparr>
                 in processChildAgentFunction js (getFunction agent) vals parentKeys mm
                      processOptions))
              (agent_agents this);
          functions =
            (case optionsFunctions of
               Some fs \<Rightarrow> fs
             | None \<Rightarrow> (case agent_functions this of Some fs \<Rightarrow> fs | None \<Rightarrow> []))
            @ (case agentFuncs of Some fs \<Rightarrow> fs | None \<Rightarrow> [])
      in (ai, functions))"

section \<open>The generation loop\<close>

subsection \<open>Data model\<close>

text \<open>The result of \<open>processFunction\<close>: the callable that ran and its output.\<close>

record func_exec =
  name_fe :: string
  result_fe :: "string option"

text \<open>
  \<open>GenerateTextResponse\<close>: the text of each result (\<open>None\<close> when a result has no
  text) and the embedding usage.
\<close>

record 'u generate_response =
  results :: "string option list"
  embedModelUsage :: "'u option"

text \<open>
  \<open>AIGenerateTextTrace\<close>, with the fields the source writes. A parsing error is the
  pair of the error message and the data that failed to parse.
\<close>

record 'u trace_response =
  parsingError :: "(string \<times> string) option"
  functions_tr :: "func_exec list option"
  embedModelUsage_tr :: "'u option"

record 'u trace =
  response :: "'u trace_response option"
  finalError :: "string option"

text \<open>
  \<open>PromptConfig\<close>. \<open>keyValue\<close> is only tested for truthiness. \<open>functions_c\<close> holds a
  reference to an array: arrays are mutable and shared, so they live in the store
  \<open>arrays\<close> of the state and a configuration holds an index into it.
\<close>

record 's response_config =
  keyValue :: bool
  schema :: "'s option"

record 's prompt_config =
  stopSequences :: "string list"
  functions_c :: "nat option"
  responseConfig :: "'s response_config option"
  queryPrefix :: "string option"
  responsePrefix :: "string option"
  debug_c :: "bool option"

text \<open>The fields of an \<open>AIPrompt\<close> object.\<close>

record 's ai_prompt =
  conf :: "'s prompt_config"
  maxSteps :: nat
  debug_p :: bool

text \<open>One call of the completion service, as the service sees it.\<close>

record request =
  prompt_rq :: string
  stopSequences_rq :: "string list"
  sessionId_rq :: "string option"

text \<open>
  The state a run works on: the prompt object \<open>this\<close>, the store of function arrays with
  its next free reference, the conversation memory by session, the requests sent to the
  service so far, and the current trace of the service wrapper.
\<close>

record ('s, 'f, 'u) world =
  self :: "'s ai_prompt"
  arrays :: "nat \<Rightarrow> 'f list"
  nextRef :: nat
  mem :: "string option \<Rightarrow> string list"
  requests :: "request list"
  trace :: "'u trace option"

text \<open>
  The imported collaborators are parameters. The completion service answers from the
  requests received so far, the last one being the current request.
  \<open>stringToMap\<close> is a parameter as well: its regular-expression matching is not
  modelled, only that it returns a map or throws. \<open>localeCompare a b\<close> stands for
  \<open>a.localeCompare(b)\<close>, the runtime's collation: it is \<open>0\<close> for strings that collate
  as equal, which need not be the same string.
\<close>

record ('s, 'f, 'u, 'm, 't) text_env =
  service :: "request list \<Rightarrow> 'u generate_response"
  finalResultFunc :: "'s \<Rightarrow> 'f"
  functionsToJSON :: "'f list \<Rightarrow> string"
  processFunction :: "string \<Rightarrow> 'f list \<Rightarrow> error + func_exec"
  localeCompare :: "string \<Rightarrow> string \<Rightarrow> int"
  stringToMap :: "string \<Rightarrow> error + 'm"
  stringToObject :: "string \<Rightarrow> 's \<Rightarrow> error + 't"

text \<open>The decoded value: \<open>string | Map<string, string[]> | T\<close>.\<close>

datatype ('m, 't) fvalue = MapValue 'm | ObjectValue 't | TextValue string

subsection \<open>Strings\<close>

definition nl :: string where
  "nl = [CHR 0x0A]"

text \<open>\<open>String.prototype.trim\<close> on code units below 256.\<close>

definition isWhiteSpace :: "char \<Rightarrow> bool" where
  "isWhiteSpace c = ((of_char c :: nat) \<in> {9, 10, 11, 12, 13, 32, 160})"

definition trim :: "string \<Rightarrow> string" where
  "trim s = rev (dropWhile isWhiteSpace (rev (dropWhile isWhiteSpace s)))"

text \<open>A natural number in a template literal.\<close>

fun showNat :: "nat \<Rightarrow> string" where
  "showNat n =
     (if n < 10 then [char_of (48 + n)] else showNat (n div 10) @ [char_of (48 + n mod 10)])"

text \<open>\<open>res.results.at(0)?.text?.trim() ?? ''\<close>.\<close>

definition firstText :: "'u generate_response \<Rightarrow> string" where
  "firstText res =
     (case results res of
        [] \<Rightarrow> []
      | r # _ \<Rightarrow> (case r of Some t \<Rightarrow> trim t | None \<Rightarrow> []))"

subsection \<open>Memory and the service wrapper\<close>

text \<open>
  Modelled from the spec: the class \<open>Memory\<close> (\<open>memory.js\<close> is not among the sources).
  The memory is an append-only ordered sequence of text fragments per session key;
  \<open>history\<close> renders the fragments of a session in order.
\<close>

definition mem_add :: "string \<Rightarrow> string option \<Rightarrow> ('s, 'f, 'u) world \<Rightarrow> ('s, 'f, 'u) world" where
  "mem_add text sessionId w = w\<lparr> mem := (mem w)(sessionId := mem w sessionId @ [text]) \<rparr>"

definition mem_history :: "string option \<Rightarrow> ('s, 'f, 'u) world \<Rightarrow> string" where
  "mem_history sessionId w = concat (mem w sessionId)"

text \<open>
  Modelled from the spec: the wrapper \<open>AI\<close> (\<open>wrap.js\<close> is not among the sources).
  \<open>generate\<close> sends the request to the service and starts the trace of this call, which
  \<open>getTrace()\<close> then returns, with a response that has no parsing error and no function
  execution yet.
\<close>

definition ai_generate ::
  "('s, 'f, 'u, 'm, 't) text_env \<Rightarrow> string \<Rightarrow> 's prompt_config \<Rightarrow> string option
     \<Rightarrow> ('s, 'f, 'u) world \<Rightarrow> 'u generate_response \<times> ('s, 'f, 'u) world" where
  "ai_generate env p cnf sessionId w =
     (let reqs = requests w
                 @ [\<lparr> prompt_rq = p, stopSequences_rq = stopSequences cnf,
                      sessionId_rq = sessionId \<rparr>]
      in (service env reqs,
          w\<lparr> requests := reqs,
             trace := Some \<lparr> response = Some \<lparr> parsingError = None, functions_tr = None,
                                               embedModelUsage_tr = None \<rparr>,
                             finalError = None \<rparr> \<rparr>))"

subsection \<open>The methods of \<open>AIPrompt\<close>\<close>

text \<open>The constructor with its field initialisers, and the two setters.\<close>

definition newAIPrompt :: "'s prompt_config \<Rightarrow> 's ai_prompt" where
  "newAIPrompt cnf =
     \<lparr> conf = cnf, maxSteps = 20,
       debug_p = (case debug_c cnf of Some d \<Rightarrow> d | None \<Rightarrow> False) \<rparr>"

definition setMaxSteps :: "nat \<Rightarrow> ('s, 'f, 'u) world \<Rightarrow> ('s, 'f, 'u) world" where
  "setMaxSteps n w = w\<lparr> self := (self w)\<lparr> maxSteps := n \<rparr> \<rparr>"

definition setDebug :: "bool \<Rightarrow> ('s, 'f, 'u) world \<Rightarrow> ('s, 'f, 'u) world" where
  "setDebug d w = w\<lparr> self := (self w)\<lparr> debug_p := d \<rparr> \<rparr>"

text \<open>
  \<open>functionsSchema\<close> pushes onto a copy of the configured array, so it only reads the
  state.
\<close>

definition functionsSchema ::
  "('s, 'f, 'u, 'm, 't) text_env \<Rightarrow> ('s, 'f, 'u) world \<Rightarrow> string" where
  "functionsSchema env w =
     (let fs = (case functions_c (conf (self w)) of Some r \<Rightarrow> arrays w r | None \<Rightarrow> []);
          fs' = (case responseConfig (conf (self w)) of
                   Some rc \<Rightarrow> (case schema rc of Some s \<Rightarrow> fs @ [finalResultFunc env s] | None \<Rightarrow> fs)
                 | None \<Rightarrow> fs)
      in functionsToJSON env fs')"

definition prompt :: "string \<Rightarrow> string \<Rightarrow> string" where
  "prompt query history = query @ nl @ history @ nl"

text \<open>The writes to the trace, each guarded by \<open>trace && trace.response\<close>.\<close>

definition recordParsingError ::
  "error \<Rightarrow> string \<Rightarrow> ('s, 'f, 'u) world \<Rightarrow> ('s, 'f, 'u) world" where
  "recordParsingError e val w =
     (case trace w of
        Some t \<Rightarrow>
          (case response t of
             Some r \<Rightarrow>
               w\<lparr> trace := Some (t\<lparr> response := Some (r\<lparr> parsingError := Some (message e, val) \<rparr>) \<rparr>) \<rparr>
           | None \<Rightarrow> w)
      | None \<Rightarrow> w)"

definition recordFunction ::
  "func_exec \<Rightarrow> 'u generate_response \<Rightarrow> ('s, 'f, 'u) world \<Rightarrow> ('s, 'f, 'u) world" where
  "recordFunction funcExec res w =
     (case trace w of
        Some t \<Rightarrow>
          (case response t of
             Some r \<Rightarrow>
               w\<lparr> trace := Some (t\<lparr> response := Some (r
                    \<lparr> functions_tr :=
                        Some ((case functions_tr r of Some fs \<Rightarrow> fs | None \<Rightarrow> []) @ [funcExec]),
                      embedModelUsage_tr := embedModelUsage res \<rparr>) \<rparr>) \<rparr>
           | None \<Rightarrow> w)
      | None \<Rightarrow> w)"

definition recordFinalError :: "error \<Rightarrow> ('s, 'f, 'u) world \<Rightarrow> ('s, 'f, 'u) world" where
  "recordFinalError e w =
     (case trace w of
        Some t \<Rightarrow>
          (case response t of
             Some r \<Rightarrow> w\<lparr> trace := Some (t\<lparr> finalError := Some (message e) \<rparr>) \<rparr>
           | None \<Rightarrow> w)
      | None \<Rightarrow> w)"

text \<open>
  One step of the loop of \<open>_generateWithFunctions\<close> up to the point where it returns,
  throws or goes on. \<open>previousValue\<close> is \<open>None\<close> while undefined; it is truthy when it is
  a non-empty string. \<open>fns\<close> is the reference to the array the loop was given.
\<close>

datatype ('a, 'b) step_outcome = Done 'a | Continue 'b

definition functionStep ::
  "('s, 'f, 'u, 'm, 't) text_env \<Rightarrow> string \<Rightarrow> string option \<Rightarrow> 's prompt_config \<Rightarrow> nat
     \<Rightarrow> string option \<Rightarrow> ('s, 'f, 'u) world
     \<Rightarrow> (error + 'u generate_response \<times> string, string) step_outcome \<times> ('s, 'f, 'u) world" where
  "functionStep env query sessionId cnf fns previousValue w =
     (let p = prompt query (mem_history sessionId w);
          (res, w1) = ai_generate env p cnf sessionId w;
          val = firstText res
      in if previousValue \<noteq> None \<and> previousValue \<noteq> Some [] \<and> Some val = previousValue
         then (Done (Inl (Error ''Duplicate response received'')), w1)
         else if length val = 0
         then (Done (Inl (Error ''Empty response received'')), w1)
         else
           (case processFunction env val (arrays w1 fns) of
              Inl e \<Rightarrow> (Done (Inl e), w1)
            | Inr funcExec \<Rightarrow>
                (let mval = [nl, val, nl @ ''Result: '',
                             (case result_fe funcExec of Some r \<Rightarrow> r | None \<Rightarrow> [])];
                     w2 = mem_add (join [] mval) sessionId w1;
                     w3 = recordFunction funcExec res w2
                 in if localeCompare env (name_fe funcExec) ''finalResult'' = 0
                    then (Done (Inr (res, (case result_fe funcExec of Some r \<Rightarrow> r | None \<Rightarrow> []))), w3)
                    else (Continue val, w3))))"

text \<open>
  The \<open>for\<close> loop of \<open>_generateWithFunctions\<close> from step \<open>i\<close> on, with the step budget
  \<open>n\<close> read from \<open>this.maxSteps\<close>, which nothing in the loop assigns.
\<close>

function functionLoop ::
  "('s, 'f, 'u, 'm, 't) text_env \<Rightarrow> string \<Rightarrow> string option \<Rightarrow> 's prompt_config \<Rightarrow> nat
     \<Rightarrow> nat \<Rightarrow> nat \<Rightarrow> string option \<Rightarrow> ('s, 'f, 'u) world
     \<Rightarrow> (error + 'u generate_response \<times> string) \<times> ('s, 'f, 'u) world" where
  "functionLoop env query sessionId cnf fns n i previousValue w =
     (if i < n
      then (case functionStep env query sessionId cnf fns previousValue w of
              (Done r, w') \<Rightarrow> (r, w')
            | (Continue val, w') \<Rightarrow> functionLoop env query sessionId cnf fns n (Suc i) (Some val) w')
      else (Inl (Error (''max '' @ showNat n @ '' steps allowed'')), w))"
  by pat_completeness auto
termination
  by (relation "measure (\<lambda>(env, query, sessionId, cnf, fns, n, i, previousValue, w). n - i)") auto


text \<open>
  \<open>_generateWithFunctions\<close>: the statements before the loop (\<open>prepareFunctions\<close>),
  then the loop. The spread copies the fields of \<open>this.conf\<close>, so \<open>conf.functions\<close>
  is the reference \<open>this.conf.functions\<close> holds; \<open>?? []\<close> allocates a new array only
  when there is none.
\<close>

definition prepareFunctions ::
  "('s, 'f, 'u, 'm, 't) text_env \<Rightarrow> ('s, 'f, 'u) world
     \<Rightarrow> 's prompt_config \<times> nat \<times> ('s, 'f, 'u) world" where
  "prepareFunctions env w =
     (let cnf = (conf (self w))\<lparr> stopSequences := stopSequences (conf (self w)) @ [''Result:''] \<rparr>;
          (fns, w1) = (case functions_c cnf of
                         Some r \<Rightarrow> (r, w)
                       | None \<Rightarrow> (nextRef w, w\<lparr> arrays := (arrays w)(nextRef w := []),
                                                nextRef := Suc (nextRef w) \<rparr>));
          w2 = (case responseConfig cnf of
                  Some rc \<Rightarrow>
                    (case schema rc of
                       Some s \<Rightarrow> w1\<lparr> arrays := (arrays w1)(fns := arrays w1 fns @ [finalResultFunc env s]) \<rparr>
                     | None \<Rightarrow> w1)
                | None \<Rightarrow> w1)
      in (cnf, fns, w2))"

definition generateWithFunctions ::
  "('s, 'f, 'u, 'm, 't) text_env \<Rightarrow> string \<Rightarrow> string option \<Rightarrow> ('s, 'f, 'u) world
     \<Rightarrow> (error + 'u generate_response \<times> string) \<times> ('s, 'f, 'u) world" where
  "generateWithFunctions env query sessionId w =
     (let (cnf, fns, w2) = prepareFunctions env w
      in functionLoop env query sessionId cnf fns (maxSteps (self w2)) 0 None w2)"

definition generateDefault ::
  "('s, 'f, 'u, 'm, 't) text_env \<Rightarrow> string \<Rightarrow> string option \<Rightarrow> ('s, 'f, 'u) world
     \<Rightarrow> (error + 'u generate_response \<times> string) \<times> ('s, 'f, 'u) world" where
  "generateDefault env query sessionId w =
     (let p = prompt query (mem_history sessionId w);
          (res, w1) = ai_generate env p (conf (self w)) sessionId w;
          val = firstText res
      in if length val = 0
         then (Inl (Error ''Empty response received''), w1)
         else
           (let mval = [(case queryPrefix (conf (self w1)) of Some s \<Rightarrow> s | None \<Rightarrow> []),
                        query,
                        (case responsePrefix (conf (self w1)) of Some s \<Rightarrow> s | None \<Rightarrow> []),
                        val]
            in (Inr (res, val), mem_add (join [] mval) sessionId w1)))"

definition fixSyntax ::
  "('s, 'f, 'u, 'm, 't) text_env \<Rightarrow> error \<Rightarrow> string \<Rightarrow> string option \<Rightarrow> ('s, 'f, 'u) world
     \<Rightarrow> (error + string) \<times> ('s, 'f, 'u) world" where
  "fixSyntax env err val sessionId w =
     (let p = mem_history None w @ nl @ ''Syntax Error: '' @ message err @ nl @ val;
          (res, w1) = ai_generate env p (conf (self w)) sessionId w;
          fixedValue = firstText res
      in if length fixedValue = 0
         then (Inl (Error ''Empty response received''), w1)
         else (Inr fixedValue, w1))"

text \<open>The body of the \<open>try\<close> in \<open>_generateHandler\<close>.\<close>

definition decode ::
  "('s, 'f, 'u, 'm, 't) text_env \<Rightarrow> bool \<Rightarrow> 's option \<Rightarrow> string \<Rightarrow> error + ('m, 't) fvalue" where
  "decode env kv sch val =
     (if kv
      then (case stringToMap env val of Inl e \<Rightarrow> Inl e | Inr m \<Rightarrow> Inr (MapValue m))
      else (case sch of
              Some s \<Rightarrow> (case stringToObject env val s of Inl e \<Rightarrow> Inl e | Inr t \<Rightarrow> Inr (ObjectValue t))
            | None \<Rightarrow> Inr (TextValue val)))"

text \<open>The retry loop of \<open>_generateHandler\<close> from attempt \<open>i\<close> on.\<close>

function retryLoop ::
  "('s, 'f, 'u, 'm, 't) text_env \<Rightarrow> bool \<Rightarrow> 's option \<Rightarrow> string option \<Rightarrow> nat \<Rightarrow> nat
     \<Rightarrow> 'u generate_response \<Rightarrow> string \<Rightarrow> ('s, 'f, 'u) world
     \<Rightarrow> (error + 'u generate_response \<times> ('m, 't) fvalue) \<times> ('s, 'f, 'u) world" where
  "retryLoop env kv sch sessionId retryCount i res val w =
     (if i < retryCount
      then (case decode env kv sch val of
              Inr fvalue \<Rightarrow> (Inr (res, fvalue), w)
            | Inl err \<Rightarrow>
                (let w1 = recordParsingError err val w
                 in if i < retryCount - 1
                    then retryLoop env kv sch sessionId retryCount (Suc i) res val w1
                    else (case fixSyntax env err val sessionId w1 of
                            (Inl e, w2) \<Rightarrow> (Inl e, w2)
                          | (Inr fixedValue, w2) \<Rightarrow>
                              retryLoop env kv sch sessionId retryCount (Suc i) res fixedValue w2)))
      else (Inl (Error ''Unable to fix result syntax''), w))"
  by pat_completeness auto
termination
  by (relation "measure (\<lambda>(env, kv, sch, sessionId, retryCount, i, res, val, w). retryCount - i)")
    auto

definition generateHandler ::
  "('s, 'f, 'u, 'm, 't) text_env \<Rightarrow> string \<Rightarrow> string option \<Rightarrow> ('s, 'f, 'u) world
     \<Rightarrow> (error + 'u generate_response \<times> ('m, 't) fvalue) \<times> ('s, 'f, 'u) world" where
  "generateHandler env query sessionId w =
     (let rc = responseConfig (conf (self w));
          fnsRef = functions_c (conf (self w));
          kv = (case rc of Some c \<Rightarrow> keyValue c | None \<Rightarrow> False);
          sch = (case rc of Some c \<Rightarrow> schema c | None \<Rightarrow> None)
      in case (if (case fnsRef of Some r \<Rightarrow> length (arrays w r) > 0 | None \<Rightarrow> False)
               then generateWithFunctions env query sessionId w
               else generateDefault env query sessionId w) of
           (Inl e, w1) \<Rightarrow> (Inl e, w1)
         | (Inr (res, val), w1) \<Rightarrow> retryLoop env kv sch sessionId 3 0 res val w1)"

text \<open>
  \<open>_generate\<close>: the \<open>catch\<close> writes the final error to the trace and rethrows the
  message; the logging in \<open>finally\<close> goes to external sinks and is not represented.
\<close>

definition private_generate ::
  "('s, 'f, 'u, 'm, 't) text_env \<Rightarrow> string \<Rightarrow> string option \<Rightarrow> ('s, 'f, 'u) world
     \<Rightarrow> (error + 'u generate_response \<times> ('m, 't) fvalue) \<times> ('s, 'f, 'u) world" where
  "private_generate env query sessionId w =
     (case generateHandler env query sessionId w of
        (Inl e, w1) \<Rightarrow> (Inl (Error (message e)), recordFinalError e w1)
      | (Inr r, w1) \<Rightarrow> (Inr r, w1))"

subsection \<open>Example configurations\<close>

text \<open>
  A service that answers its \<open>k\<close>-th request with \<open>answers k\<close>, a function executor
  and a decoder given as functions, and a fresh prompt object with empty memory.
\<close>

text \<open>
  As the collation of the examples: strings are equal when they are the same up to soft
  hyphens (U+00AD), which collation ignores.
\<close>

definition compareIgnoringSoftHyphens :: "string \<Rightarrow> string \<Rightarrow> int" where
  "compareIgnoringSoftHyphens a b =
     (if filter (\<lambda>c. c \<noteq> CHR 0xAD) a = filter (\<lambda>c. c \<noteq> CHR 0xAD) b then 0 else 1)"

definition scriptedEnv ::
  "(nat \<Rightarrow> string) \<Rightarrow> (string \<Rightarrow> func_exec) \<Rightarrow> (string \<Rightarrow> error + unit)
     \<Rightarrow> (unit, string, unit, unit, unit) text_env" where
  "scriptedEnv answers exec dec =
     \<lparr> service = (\<lambda>reqs. \<lparr> results = [Some (answers (length reqs))], embedModelUsage = None \<rparr>),
       finalResultFunc = (\<lambda>s. ''finalResult''),
       functionsToJSON = concat,
       processFunction = (\<lambda>val fs. Inr (exec val)),
       localeCompare = compareIgnoringSoftHyphens,
       stringToMap = dec,
       stringToObject = (\<lambda>val s. dec val) \<rparr>"

definition initialWorld ::
  "unit prompt_config \<Rightarrow> (nat \<Rightarrow> string list) \<Rightarrow> (unit, string, unit) world" where
  "initialWorld cnf arrs =
     \<lparr> self = newAIPrompt cnf, arrays = arrs, nextRef = 1, mem = (\<lambda>sid. []), requests = [],
       trace = None \<rparr>"


definition schemaConfig :: "nat option \<Rightarrow> unit prompt_config" where
  "schemaConfig fns =
     \<lparr> stopSequences = [], functions_c = fns,
       responseConfig = Some \<lparr> keyValue = False, schema = Some () \<rparr>, queryPrefix = None,
       responsePrefix = None, debug_c = None \<rparr>"

text \<open>
  Values for the examples of the adapter: text, \<open>null\<close>, and the value that reading an
  inherited member of \<open>Object.prototype\<close> yields (for \<open>__proto__\<close> that is
  \<open>Object.prototype\<close> itself). \<open>plainObject\<close> is an object literal with the given own
  properties.
\<close>

datatype example_value = Str string | NullValue | Inherited string

definition exampleRuntime :: "example_value js_runtime" where
  "exampleRuntime =
     \<lparr> stringify = (\<lambda>args. []),
       protoEffect = (\<lambda>v. case v of
                             Str s \<Rightarrow> Ignored
                           | NullValue \<Rightarrow> LosesAccessor
                           | Inherited m \<Rightarrow> KeepsAccessor) \<rparr>"

definition objectPrototypeMembers :: "string list" where
  "objectPrototypeMembers =
     [''constructor'', ''__defineGetter__'', ''__defineSetter__'', ''hasOwnProperty'',
      ''__lookupGetter__'', ''__lookupSetter__'', ''isPrototypeOf'', ''propertyIsEnumerable'',
      ''toString'', ''valueOf'', ''__proto__'', ''toLocaleString'']"

definition plainObject :: "(string \<rightharpoonup> example_value) \<Rightarrow> example_value js_object" where
  "plainObject props =
     \<lparr> own = props,
       inherited = (\<lambda>k. if k \<in> set objectPrototypeMembers then Some (Inherited k) else None) \<rparr>"

declare functionLoop.simps [simp del]

declare retryLoop.simps [simp del]

declare showNat.simps [simp del]

section \<open>Properties of the schema projector\<close>

lemma fold_delete_filter:
  "fold AList.delete ks ps = filter (\<lambda>p. fst p \<notin> set ks) ps"
proof (induction ks arbitrary: ps)
  case Nil
  show ?case by simp
next
  case (Cons k ks)
  have "AList.delete k ps = filter (\<lambda>p. fst p \<noteq> k) ps"
    by (induction ps) (auto simp: AList.delete_eq)
  then show ?case using Cons by (simp add: conj_commute)
qed

lemma update_absent:
  "map_of ps k = None \<Longrightarrow> AList.update k v ps = ps @ [(k, v)]"
  by (induction ps) (auto split: if_splits)

lemma model_present_iff:
  "(case properties s of Some props \<Rightarrow> map_of props ''model'' \<noteq> None | None \<Rightarrow> False)
     = (''model'' \<in> set (propertyKeys s))"
  by (auto simp: propertyKeys_def propertiesOf_def map_of_eq_None_iff split: option.splits)

lemma removeProperties_properties:
  "properties (removePropertiesFromSchema sch ks)
     = map_option (filter (\<lambda>p. fst p \<notin> set ks)) (properties sch)"
  by (simp add: removePropertiesFromSchema_def fold_delete_filter split: option.splits)

lemma removeProperties_required:
  "required (removePropertiesFromSchema sch ks)
     = map_option (filter (\<lambda>r. r \<notin> set ks)) (required sch)"
  by (simp add: removePropertiesFromSchema_def split: option.splits)

lemma removeProperties_other:
  "type (removePropertiesFromSchema sch ks) = type sch"
  "enum (removePropertiesFromSchema sch ks) = enum sch"
  "description (removePropertiesFromSchema sch ks) = description sch"
  by (simp_all add: removePropertiesFromSchema_def)

lemma removeProperties_propertyKeys:
  "propertyKeys (removePropertiesFromSchema sch ks) = filter (\<lambda>k. k \<notin> set ks) (propertyKeys sch)"
  by (simp add: propertyKeys_def propertiesOf_def removeProperties_properties filter_map comp_def
      split: option.splits)

lemma removeProperties_requiredKeys:
  "requiredKeys (removePropertiesFromSchema sch ks) = filter (\<lambda>k. k \<notin> set ks) (requiredKeys sch)"
  by (simp add: requiredKeys_def removeProperties_required split: option.splits)

lemma addModel_present:
  "''model'' \<in> set (propertyKeys sch) \<Longrightarrow> addModelParameter (Some sch) ms = sch"
  by (simp add: addModelParameter_def model_present_iff)

lemma addModel_absent:
  assumes "''model'' \<notin> set (propertyKeys sch)"
  shows "addModelParameter (Some sch) ms =
           Schema (type sch) (Some (propertiesOf sch @ [(''model'', modelProperty ms)]))
             (Some (requiredKeys sch @ [''model''])) (enum sch) (description sch)"
proof -
  from assms have "map_of (propertiesOf sch) ''model'' = None"
    by (simp add: propertyKeys_def map_of_eq_None_iff)
  then have "AList.update ''model'' (modelProperty ms) (propertiesOf sch)
               = propertiesOf sch @ [(''model'', modelProperty ms)]"
    by (rule update_absent)
  with assms show ?thesis
    by (simp add: addModelParameter_def model_present_iff propertiesOf_def requiredKeys_def)
qed

lemma addModel_None:
  "addModelParameter None ms =
     Schema ''object'' (Some [(''model'', modelProperty ms)]) (Some [''model'']) None None"
  by (simp add: addModelParameter_def)

lemma addModel_has_model:
  "''model'' \<in> set (propertyKeys (addModelParameter p ms))"
proof (cases p)
  case None
  then show ?thesis by (simp add: addModel_None propertyKeys_def propertiesOf_def)
next
  case (Some sch)
  show ?thesis
  proof (cases "''model'' \<in> set (propertyKeys sch)")
    case True
    with Some show ?thesis by (simp add: addModel_present)
  next
    case False
    with Some show ?thesis by (simp add: addModel_absent propertyKeys_def propertiesOf_def)
  qed
qed

text \<open>
  C5. \<open>removePropertiesFromSchema\<close> is total; the properties and the required list of
  its result are those of the input without the listed keys, in the same order, and every
  other field is unchanged; no listed key remains; listed keys that the schema does not
  have change nothing; with no key listed the result equals the input.
\<close>

theorem removeFields_projection:
  "properties (removePropertiesFromSchema sch ks)
     = map_option (filter (\<lambda>p. fst p \<notin> set ks)) (properties sch)
   \<and> required (removePropertiesFromSchema sch ks)
     = map_option (filter (\<lambda>r. r \<notin> set ks)) (required sch)
   \<and> type (removePropertiesFromSchema sch ks) = type sch
   \<and> enum (removePropertiesFromSchema sch ks) = enum sch
   \<and> description (removePropertiesFromSchema sch ks) = description sch
   \<and> (\<forall>k \<in> set ks. k \<notin> set (propertyKeys (removePropertiesFromSchema sch ks))
                   \<and> k \<notin> set (requiredKeys (removePropertiesFromSchema sch ks)))
   \<and> (set ks \<inter> (set (propertyKeys sch) \<union> set (requiredKeys sch)) = {}
        \<longrightarrow> removePropertiesFromSchema sch ks = sch)
   \<and> removePropertiesFromSchema sch [] = sch"
proof -
  have gone: "\<forall>k \<in> set ks. k \<notin> set (propertyKeys (removePropertiesFromSchema sch ks))
                   \<and> k \<notin> set (requiredKeys (removePropertiesFromSchema sch ks))"
    by (simp add: removeProperties_propertyKeys removeProperties_requiredKeys)
  have noop: "removePropertiesFromSchema sch ks = sch"
    if d: "set ks \<inter> (set (propertyKeys sch) \<union> set (requiredKeys sch)) = {}"
  proof -
    have "map_option (filter (\<lambda>p. fst p \<notin> set ks)) (properties sch) = properties sch"
    proof (cases "properties sch")
      case None
      then show ?thesis by simp
    next
      case (Some props)
      with d have "\<forall>p \<in> set props. fst p \<notin> set ks"
        by (auto simp: propertyKeys_def propertiesOf_def)
      then have "filter (\<lambda>p. fst p \<notin> set ks) props = props"
        by (simp add: filter_id_conv)
      with Some show ?thesis by simp
    qed
    moreover have "map_option (filter (\<lambda>r. r \<notin> set ks)) (required sch) = required sch"
    proof (cases "required sch")
      case None
      then show ?thesis by simp
    next
      case (Some req)
      with d have "\<forall>r \<in> set req. r \<notin> set ks"
        by (auto simp: requiredKeys_def)
      then have "filter (\<lambda>r. r \<notin> set ks) req = req"
        by (simp add: filter_id_conv)
      with Some show ?thesis by simp
    qed
    ultimately show ?thesis
      by (simp add: schema.expand removeProperties_properties removeProperties_required
          removeProperties_other)
  qed
  have "removePropertiesFromSchema sch [] = sch"
    by (cases sch) (simp add: removePropertiesFromSchema_def split: option.splits)
  with gone noop show ?thesis
    by (simp add: removeProperties_properties removeProperties_required removeProperties_other)
qed

theorem removeFields_projection_witness:
  "removePropertiesFromSchema
     (Schema ''object''
        (Some [(''region'', Schema ''string'' None None None None),
               (''query'', Schema ''string'' None None None None)])
        (Some [''region'', ''query'']) None None)
     [''region'', ''zone'']
   = Schema ''object'' (Some [(''query'', Schema ''string'' None None None None)])
       (Some [''query'']) None None
   \<and> removePropertiesFromSchema
       (Schema ''object'' (Some [(''query'', Schema ''string'' None None None None)])
          (Some [''query'']) None None)
       [''zone'']
     = Schema ''object'' (Some [(''query'', Schema ''string'' None None None None)])
         (Some [''query'']) None None"
  using removeFields_projection [of "Schema ''object''
        (Some [(''region'', Schema ''string'' None None None None),
               (''query'', Schema ''string'' None None None None)])
        (Some [''region'', ''query'']) None None" "[''region'', ''zone'']"]
    removeFields_projection [of "Schema ''object''
          (Some [(''query'', Schema ''string'' None None None None)])
          (Some [''query'']) None None" "[''zone'']"]
  by (simp add: schema.expand propertyKeys_def propertiesOf_def requiredKeys_def)

text \<open>
  C6. Applying \<open>addModelParameter\<close> to its own result changes nothing, for a present and
  for an absent schema. A schema that already has a \<open>model\<close> property is returned as it
  is. Otherwise the result has the properties of the input followed by \<open>model\<close>, whose
  schema is of type string with the keys of the model list as its enum, in the order of
  the list, and the required list of the input followed by \<open>model\<close>.
\<close>

theorem addModelField_idempotent:
  "addModelParameter (Some (addModelParameter params models)) models
     = addModelParameter params models
   \<and> (''model'' \<in> set (propertyKeys sch) \<longrightarrow> addModelParameter (Some sch) models = sch)
   \<and> (''model'' \<notin> set (propertyKeys sch) \<longrightarrow>
        addModelParameter (Some sch) models
          = Schema (type sch) (Some (propertiesOf sch @ [(''model'', modelProperty models)]))
              (Some (requiredKeys sch @ [''model''])) (enum sch) (description sch))
   \<and> addModelParameter None models
       = Schema ''object'' (Some [(''model'', modelProperty models)]) (Some [''model''])
           None None
   \<and> type (modelProperty models) = ''string''
   \<and> enum (modelProperty models) = Some (map key models)"
  using addModel_present [OF addModel_has_model, of params models models]
  by (simp add: addModel_present addModel_absent addModel_None modelProperty_def)

theorem addModelField_idempotent_witness:
  "addModelParameter
     (Some (Schema ''object'' (Some [(''query'', Schema ''string'' None None None None)])
        (Some [''query'']) None None))
     [\<lparr> key = ''fast'', model = ''m-small'', description_m = ''quick answers'' \<rparr>,
      \<lparr> key = ''deep'', model = ''m-large'', description_m = ''hard problems'' \<rparr>]
   = Schema ''object''
       (Some [(''query'', Schema ''string'' None None None None),
              (''model'', Schema ''string'' None None (Some [''fast'', ''deep''])
                 (Some ''The AI model to use for this function call. Available options: `fast` quick answers, `deep` hard problems''))])
       (Some [''query'', ''model'']) None None
   \<and> addModelParameter
       (Some (Schema ''object''
          (Some [(''model'', Schema ''string'' None None None None)]) None None None))
       [\<lparr> key = ''fast'', model = ''m-small'', description_m = ''quick answers'' \<rparr>]
     = Schema ''object'' (Some [(''model'', Schema ''string'' None None None None)]) None
         None None"
  using addModelField_idempotent [of "Some (Schema ''object''
        (Some [(''query'', Schema ''string'' None None None None)])
        (Some [''query'']) None None)"
      "[\<lparr> key = ''fast'', model = ''m-small'', description_m = ''quick answers'' \<rparr>,
        \<lparr> key = ''deep'', model = ''m-large'', description_m = ''hard problems'' \<rparr>]"
      "Schema ''object'' (Some [(''query'', Schema ''string'' None None None None)])
        (Some [''query'']) None None"]
    addModelField_idempotent [of None
      "[\<lparr> key = ''fast'', model = ''m-small'', description_m = ''quick answers'' \<rparr>]"
      "Schema ''object'' (Some [(''model'', Schema ''string'' None None None None)]) None
         None None"]
  by (simp add: propertyKeys_def propertiesOf_def requiredKeys_def modelProperty_def)

text \<open>
  C7. A schema whose required keys are all among its property keys keeps that property
  under \<open>removePropertiesFromSchema\<close> and under \<open>addModelParameter\<close>; the schema that
  \<open>addModelParameter\<close> builds for an absent one has it too.
\<close>

theorem projection_preserves_required_in_properties:
  assumes "required_in_properties sch"
  shows "required_in_properties (removePropertiesFromSchema sch ks)
         \<and> required_in_properties (addModelParameter (Some sch) models)
         \<and> required_in_properties (addModelParameter None models)"
proof -
  from assms have sub: "set (requiredKeys sch) \<subseteq> set (propertyKeys sch)"
    by (simp add: required_in_properties_def)
  then have "required_in_properties (removePropertiesFromSchema sch ks)"
    by (auto simp: required_in_properties_def removeProperties_propertyKeys
        removeProperties_requiredKeys)
  moreover have "required_in_properties (addModelParameter (Some sch) models)"
  proof (cases "''model'' \<in> set (propertyKeys sch)")
    case True
    with assms show ?thesis by (simp add: addModel_present)
  next
    case False
    with sub show ?thesis
      by (auto simp: addModel_absent required_in_properties_def propertyKeys_def
          propertiesOf_def requiredKeys_def)
  qed
  moreover have "required_in_properties (addModelParameter None models)"
    by (simp add: addModel_None required_in_properties_def propertyKeys_def propertiesOf_def
        requiredKeys_def)
  ultimately show ?thesis by simp
qed

theorem projection_preserves_required_in_properties_witness:
  "required_in_properties
     (removePropertiesFromSchema
        (Schema ''object''
           (Some [(''region'', Schema ''string'' None None None None),
                  (''query'', Schema ''string'' None None None None)])
           (Some [''region'', ''query'']) None None)
        [''region''])
   \<and> required_in_properties
       (addModelParameter
          (Some (Schema ''object''
             (Some [(''region'', Schema ''string'' None None None None),
                    (''query'', Schema ''string'' None None None None)])
             (Some [''region'', ''query'']) None None))
          [\<lparr> key = ''fast'', model = ''m-small'', description_m = ''quick answers'' \<rparr>])"
proof -
  have h: "required_in_properties
     (Schema ''object''
        (Some [(''region'', Schema ''string'' None None None None),
               (''query'', Schema ''string'' None None None None)])
        (Some [''region'', ''query'']) None None)"
    by (simp add: required_in_properties_def propertyKeys_def propertiesOf_def requiredKeys_def)
  show ?thesis
    using projection_preserves_required_in_properties [OF h, of "[''region'']"
        "[\<lparr> key = ''fast'', model = ''m-small'', description_m = ''quick answers'' \<rparr>]"]
    by simp
qed

section \<open>Properties of the function adapter\<close>

lemma hasProperty_getProperty:
  "hasProperty obj k \<longleftrightarrow> getProperty obj k \<noteq> None"
  by (auto simp: hasProperty_def getProperty_def split: option.splits)

lemma pickStep_other:
  "k \<noteq> ''__proto__'' \<Longrightarrow>
     fst (pickStep effect obj k' st) k
       = (if k' = k \<and> hasProperty obj k then getProperty obj k else fst st k)"
  by (cases st)
    (auto simp: pickStep_def assignProperty_def hasProperty_getProperty split: option.splits)

lemma fold_pickStep_other:
  "k \<noteq> ''__proto__'' \<Longrightarrow>
     fst (fold (pickStep effect obj) ks st) k
       = (if k \<in> set ks \<and> hasProperty obj k then getProperty obj k else fst st k)"
  by (induction ks arbitrary: st) (auto simp: pickStep_other)

lemma fold_pickStep_proto_lost:
  "snd st = False \<Longrightarrow>
     fst (fold (pickStep effect obj) ks st) ''__proto__''
       = (if ''__proto__'' \<in> set ks \<and> hasProperty obj ''__proto__''
          then getProperty obj ''__proto__'' else fst st ''__proto__'')"
proof (induction ks arbitrary: st)
  case Nil
  show ?case by simp
next
  case (Cons k ks)
  obtain r a where st: "st = (r, a)" by (cases st)
  with Cons.prems have a: "a = False" by simp
  have flag: "snd (pickStep effect obj k st) = False"
    using st a by (simp add: pickStep_def assignProperty_def split: option.splits)
  have val: "fst (pickStep effect obj k st) ''__proto__''
               = (if k = ''__proto__'' \<and> hasProperty obj ''__proto__''
                  then getProperty obj ''__proto__'' else fst st ''__proto__'')"
    using st a
    by (auto simp: pickStep_def assignProperty_def hasProperty_getProperty split: option.splits)
  show ?case
    using Cons.IH [OF flag] val by (auto simp: hasProperty_getProperty)
qed

lemma fold_pickStep_proto_kept:
  "snd st = True \<Longrightarrow>
     fst (fold (pickStep effect obj) ks st) ''__proto__''
       = (case getProperty obj ''__proto__'' of
            Some v \<Rightarrow> if effect v = LosesAccessor \<and> 2 \<le> count_list ks ''__proto__''
                      then Some v else fst st ''__proto__''
          | None \<Rightarrow> fst st ''__proto__'')"
proof (induction ks arbitrary: st)
  case Nil
  show ?case by (simp split: option.splits)
next
  case (Cons k ks)
  obtain r where st: "st = (r, True)"
    using Cons.prems by (cases st) simp
  show ?case
  proof (cases "k = ''__proto__''")
    case False
    then have flag: "snd (pickStep effect obj k st) = True"
      and val: "fst (pickStep effect obj k st) ''__proto__'' = fst st ''__proto__''"
      using st by (auto simp: pickStep_def assignProperty_def split: option.splits)
    from Cons.IH [OF flag] val False show ?thesis
      by (simp split: option.splits)
  next
    case True
    show ?thesis
    proof (cases "getProperty obj ''__proto__''")
      case None
      then have "pickStep effect obj k st = st"
        using True by (simp add: pickStep_def hasProperty_getProperty)
      with Cons.IH [of st] Cons.prems None show ?thesis
        by simp
    next
      case (Some v)
      show ?thesis
      proof (cases "effect v = LosesAccessor")
        case lose: True
        then have step: "pickStep effect obj k st = (r, False)"
          using True Some st by (simp add: pickStep_def assignProperty_def hasProperty_getProperty)
        have "(''__proto__'' \<in> set ks) = (1 \<le> count_list ks ''__proto__'')"
          by (metis count_list_0_iff not_less_eq_eq le_0_eq One_nat_def not_one_le_zero)
        then show ?thesis
          using fold_pickStep_proto_lost [of "(r, False)" effect obj ks] step True Some lose st
          by (simp add: hasProperty_getProperty)
      next
        case keep: False
        then have step: "pickStep effect obj k st = (r, True)"
          using True Some st by (simp add: pickStep_def assignProperty_def hasProperty_getProperty)
        then show ?thesis
          using Cons.IH [of "(r, True)"] Some keep st by simp
      qed
    qed
  qed
qed

lemma pick_apply:
  "pick effect obj ks k
     = (if k = ''__proto__''
        then (case getProperty obj ''__proto__'' of
                Some v \<Rightarrow> if effect v = LosesAccessor \<and> 2 \<le> count_list ks ''__proto__''
                          then Some v else None
              | None \<Rightarrow> None)
        else if k \<in> set ks then getProperty obj k else None)"
proof (cases "k = ''__proto__''")
  case True
  then show ?thesis
    using fold_pickStep_proto_kept [of "(Map.empty, True)" effect obj ks]
    by (simp add: pick_def split: option.splits)
next
  case False
  then show ?thesis
    using fold_pickStep_other [of k effect obj ks "(Map.empty, True)"]
    by (auto simp: pick_def hasProperty_getProperty)
qed

lemma merge_pick_apply:
  "(childArgs ++ pick effect obj ks) k
     = (if k = ''__proto__''
        then (case getProperty obj ''__proto__'' of
                Some v \<Rightarrow> if effect v = LosesAccessor \<and> 2 \<le> count_list ks ''__proto__''
                          then Some v else childArgs ''__proto__''
              | None \<Rightarrow> childArgs ''__proto__'')
        else if k \<in> set ks \<and> hasProperty obj k then getProperty obj k else childArgs k)"
  by (auto simp: map_add_def pick_apply hasProperty_getProperty split: option.splits)

lemma set_injectionKeysOf:
  "set (injectionKeysOf ps parentInputKeys excluded)
     = {k \<in> set parentInputKeys. k \<in> set (propertyKeys ps) \<and> k \<noteq> ''model'' \<and> k \<notin> set excluded}"
  by (auto simp: injectionKeysOf_def propertyKeys_def propertiesOf_def split: option.splits)

lemma removeProperties_Nil: "removePropertiesFromSchema sch [] = sch"
  by (cases sch) (simp add: removePropertiesFromSchema_def split: option.splits)

lemma processChild_parameters:
  assumes "parameters childFunction = Some ps"
  shows "parameters (processChildAgentFunction js childFunction parentValues
                       parentInputKeys modelList opts)
           = Some (removePropertiesFromSchema ps
                     (injectionKeysOf ps parentInputKeys (excludeFieldsFromPassthrough opts)))"
  using assms by (simp add: processChildAgentFunction_def Let_def removeProperties_Nil)

lemma processChild_func:
  assumes "parameters childFunction = Some ps"
    and "ks = injectionKeysOf ps parentInputKeys (excludeFieldsFromPassthrough opts)"
  shows "func (processChildAgentFunction js childFunction parentValues
                 parentInputKeys modelList opts) childArgs funcOptions
           = (case func childFunction (childArgs ++ pick (protoEffect js) parentValues ks)
                     funcOptions of
                (out, res) \<Rightarrow>
                  ((if debug opts \<and> ks \<noteq> []
                    then [''Function Params: ''
                          @ stringify js (childArgs ++ pick (protoEffect js) parentValues ks)]
                    else []) @ out, res))"
proof (cases "ks = []")
  case True
  then have "pick (protoEffect js) parentValues ks = Map.empty"
    by (simp add: pick_def)
  with True assms show ?thesis
    by (simp add: processChildAgentFunction_def Let_def split: prod.splits)
next
  case False
  with assms show ?thesis
    by (simp add: processChildAgentFunction_def Let_def split: prod.splits)
qed

lemma processChild_names:
  "name (processChildAgentFunction js childFunction parentValues parentInputKeys
           modelList opts) = name childFunction
   \<and> description_f (processChildAgentFunction js childFunction parentValues
           parentInputKeys modelList opts) = description_f childFunction"
  by (simp add: processChildAgentFunction_def Let_def split: option.splits)

lemma map_of_filter_keys:
  "map_of (filter (\<lambda>p. fst p \<notin> S) ps) k = (if k \<in> S then None else map_of ps k)"
  by (induction ps) auto

text \<open>
  C4, as stated, fails on the code. With \<open>__proto__\<close> as a non-excluded common field, a
  parent whose values have the own property \<open>__proto__\<close> with value \<open>eu\<close> and a caller
  who supplies \<open>us\<close>, the call runs with the caller's \<open>us\<close>: the assignment in \<open>pick\<close>
  goes to the prototype accessor of the fresh object and copies nothing. With
  \<open>constructor\<close> as the common field and a parent object literal without properties, the
  call runs with the member that the object inherits, which is no input value of the
  parent.
\<close>

theorem passthrough_precedence_counterexample:
  "injectionKeysOf
     (Schema ''object'' (Some [(''__proto__'', Schema ''string'' None None None None)])
        (Some [''__proto__'']) None None)
     [''__proto__''] [] = [''__proto__'']
   \<and> own (plainObject [''__proto__'' \<mapsto> Str ''eu'']) ''__proto__'' = Some (Str ''eu'')
   \<and> func
       (processChildAgentFunction exampleRuntime
          \<lparr> name = ''childAgent'', description_f = ''answers regional questions'',
            parameters = Some (Schema ''object''
              (Some [(''__proto__'', Schema ''string'' None None None None)])
              (Some [''__proto__'']) None None),
            func = (\<lambda>(a :: string \<rightharpoonup> example_value) (u :: unit). ([], a ''__proto__'')) \<rparr>
          (plainObject [''__proto__'' \<mapsto> Str ''eu''])
          [''__proto__''] None
          \<lparr> debug = False, disableSmartModelRouting = False,
            excludeFieldsFromPassthrough = [], canConfigureSmartModelRouting = False \<rparr>)
       [''__proto__'' \<mapsto> Str ''us''] ()
     = ([], Some (Str ''us''))
   \<and> own (plainObject Map.empty) ''constructor'' = None
   \<and> func
       (processChildAgentFunction exampleRuntime
          \<lparr> name = ''childAgent'', description_f = ''answers regional questions'',
            parameters = Some (Schema ''object''
              (Some [(''constructor'', Schema ''string'' None None None None)])
              (Some [''constructor'']) None None),
            func = (\<lambda>(a :: string \<rightharpoonup> example_value) (u :: unit). ([], a ''constructor'')) \<rparr>
          (plainObject Map.empty)
          [''constructor''] None
          \<lparr> debug = False, disableSmartModelRouting = False,
            excludeFieldsFromPassthrough = [], canConfigureSmartModelRouting = False \<rparr>)
       [''constructor'' \<mapsto> Str ''us''] ()
     = ([], Some (Inherited ''constructor''))"
  by (simp add: injectionKeysOf_def processChildAgentFunction_def pick_def pickStep_def
      assignProperty_def hasProperty_def getProperty_def plainObject_def exampleRuntime_def
      objectPrototypeMembers_def Let_def)

text \<open>
  C4, amended. For a child callable with a parameter schema, let the injection keys be
  the parent input fields that are also child properties, are not \<open>model\<close> and are not
  excluded from passthrough. The projected schema is the child's schema without the
  injection keys: none of them is a property or required any more, and every other key,
  an excluded one included, keeps its property schema and its being required or not.
  The wrapped invocation calls the original one on the caller's arguments overridden by
  what \<open>pick\<close> copies: for an injection key other than \<open>__proto__\<close> that is \<open>in\<close> the
  parent's values object, as an own or as an inherited property, the value that the
  object yields for it; for every other key other than \<open>__proto__\<close>, an excluded one
  included, the caller's argument is kept. For \<open>__proto__\<close> the caller's argument is
  kept as well, unless the key is listed twice and the object's value for it took the
  accessor away. Name and description are those of the child.
\<close>

theorem passthrough_projection:
  assumes "parameters childFunction = Some ps"
    and "ks = injectionKeysOf ps parentInputKeys (excludeFieldsFromPassthrough opts)"
    and "pf = processChildAgentFunction js childFunction parentValues parentInputKeys
                modelList opts"
  shows "set ks = {k \<in> set parentInputKeys. k \<in> set (propertyKeys ps) \<and> k \<noteq> ''model''
                      \<and> k \<notin> set (excludeFieldsFromPassthrough opts)}
    \<and> parameters pf = Some (removePropertiesFromSchema ps ks)
    \<and> (\<forall>k \<in> set ks. k \<notin> set (propertyKeys (removePropertiesFromSchema ps ks))
                    \<and> k \<notin> set (requiredKeys (removePropertiesFromSchema ps ks)))
    \<and> (\<forall>k. k \<notin> set ks \<longrightarrow>
          map_of (propertiesOf (removePropertiesFromSchema ps ks)) k = map_of (propertiesOf ps) k
          \<and> (k \<in> set (requiredKeys (removePropertiesFromSchema ps ks))
               \<longleftrightarrow> k \<in> set (requiredKeys ps)))
    \<and> (\<forall>childArgs funcOptions.
          func pf childArgs funcOptions
            = (case func childFunction (childArgs ++ pick (protoEffect js) parentValues ks)
                      funcOptions of
                 (out, res) \<Rightarrow>
                   ((if debug opts \<and> ks \<noteq> []
                     then [''Function Params: ''
                           @ stringify js (childArgs ++ pick (protoEffect js) parentValues ks)]
                     else []) @ out, res)))
    \<and> (\<forall>childArgs k. k \<noteq> ''__proto__'' \<longrightarrow>
          (childArgs ++ pick (protoEffect js) parentValues ks) k
            = (if k \<in> set ks \<and> hasProperty parentValues k
               then getProperty parentValues k else childArgs k))
    \<and> (\<forall>k. hasProperty parentValues k \<longrightarrow> getProperty parentValues k \<noteq> None)
    \<and> (\<forall>childArgs.
          (childArgs ++ pick (protoEffect js) parentValues ks) ''__proto__''
            = (case getProperty parentValues ''__proto__'' of
                 Some v \<Rightarrow> if protoEffect js v = LosesAccessor \<and> 2 \<le> count_list ks ''__proto__''
                           then Some v else childArgs ''__proto__''
               | None \<Rightarrow> childArgs ''__proto__''))
    \<and> name pf = name childFunction
    \<and> description_f pf = description_f childFunction"
proof -
  have keys: "set ks = {k \<in> set parentInputKeys. k \<in> set (propertyKeys ps) \<and> k \<noteq> ''model''
                      \<and> k \<notin> set (excludeFieldsFromPassthrough opts)}"
    unfolding assms(2) by (rule set_injectionKeysOf)
  have params: "parameters pf = Some (removePropertiesFromSchema ps ks)"
    unfolding assms(2,3) using assms(1) by (rule processChild_parameters)
  have gone: "\<forall>k \<in> set ks. k \<notin> set (propertyKeys (removePropertiesFromSchema ps ks))
                    \<and> k \<notin> set (requiredKeys (removePropertiesFromSchema ps ks))"
    by (simp add: removeProperties_propertyKeys removeProperties_requiredKeys)
  have kept: "\<forall>k. k \<notin> set ks \<longrightarrow>
          map_of (propertiesOf (removePropertiesFromSchema ps ks)) k = map_of (propertiesOf ps) k
          \<and> (k \<in> set (requiredKeys (removePropertiesFromSchema ps ks))
               \<longleftrightarrow> k \<in> set (requiredKeys ps))"
    by (simp add: removeProperties_requiredKeys propertiesOf_def removeProperties_properties
        map_of_filter_keys split: option.splits)
  have call: "\<forall>childArgs funcOptions.
          func pf childArgs funcOptions
            = (case func childFunction (childArgs ++ pick (protoEffect js) parentValues ks)
                      funcOptions of
                 (out, res) \<Rightarrow>
                   ((if debug opts \<and> ks \<noteq> []
                     then [''Function Params: ''
                           @ stringify js (childArgs ++ pick (protoEffect js) parentValues ks)]
                     else []) @ out, res))"
    unfolding assms(3) using processChild_func [OF assms(1,2)] by blast
  have merged: "\<forall>childArgs k. k \<noteq> ''__proto__'' \<longrightarrow>
          (childArgs ++ pick (protoEffect js) parentValues ks) k
            = (if k \<in> set ks \<and> hasProperty parentValues k
               then getProperty parentValues k else childArgs k)"
    by (simp add: merge_pick_apply)
  have present: "\<forall>k. hasProperty parentValues k \<longrightarrow> getProperty parentValues k \<noteq> None"
    by (simp add: hasProperty_getProperty)
  have proto: "\<forall>childArgs.
          (childArgs ++ pick (protoEffect js) parentValues ks) ''__proto__''
            = (case getProperty parentValues ''__proto__'' of
                 Some v \<Rightarrow> if protoEffect js v = LosesAccessor \<and> 2 \<le> count_list ks ''__proto__''
                           then Some v else childArgs ''__proto__''
               | None \<Rightarrow> childArgs ''__proto__'')"
    by (simp add: merge_pick_apply)
  have names: "name pf = name childFunction \<and> description_f pf = description_f childFunction"
    unfolding assms(3) by (rule processChild_names)
  from keys params gone kept call merged present proto names show ?thesis by blast
qed

theorem passthrough_projection_witness:
  "parameters
     (processChildAgentFunction exampleRuntime
        \<lparr> name = ''childAgent'', description_f = ''answers regional questions'',
          parameters = Some (Schema ''object''
            (Some [(''region'', Schema ''string'' None None None None),
                   (''tenant'', Schema ''string'' None None None None),
                   (''question'', Schema ''string'' None None None None)])
            (Some [''region'', ''tenant'', ''question'']) None None),
          func = (\<lambda>(a :: string \<rightharpoonup> example_value) (u :: unit).
                    ([], (a ''region'', a ''tenant'', a ''question''))) \<rparr>
        (plainObject [''region'' \<mapsto> Str ''eu'', ''tenant'' \<mapsto> Str ''acme''])
        [''region'', ''tenant'']
        None
        \<lparr> debug = False, disableSmartModelRouting = False,
          excludeFieldsFromPassthrough = [''tenant''],
          canConfigureSmartModelRouting = False \<rparr>)
   = Some (Schema ''object''
       (Some [(''tenant'', Schema ''string'' None None None None),
              (''question'', Schema ''string'' None None None None)])
       (Some [''tenant'', ''question'']) None None)
   \<and> func
       (processChildAgentFunction exampleRuntime
          \<lparr> name = ''childAgent'', description_f = ''answers regional questions'',
            parameters = Some (Schema ''object''
              (Some [(''region'', Schema ''string'' None None None None),
                     (''tenant'', Schema ''string'' None None None None),
                     (''question'', Schema ''string'' None None None None)])
              (Some [''region'', ''tenant'', ''question'']) None None),
            func = (\<lambda>(a :: string \<rightharpoonup> example_value) (u :: unit).
                      ([], (a ''region'', a ''tenant'', a ''question''))) \<rparr>
          (plainObject [''region'' \<mapsto> Str ''eu'', ''tenant'' \<mapsto> Str ''acme''])
          [''region'', ''tenant'']
          None
          \<lparr> debug = False, disableSmartModelRouting = False,
            excludeFieldsFromPassthrough = [''tenant''],
            canConfigureSmartModelRouting = False \<rparr>)
       [''region'' \<mapsto> Str ''us'', ''tenant'' \<mapsto> Str ''other'', ''question'' \<mapsto> Str ''why'']
       ()
     = ([], (Some (Str ''eu''), Some (Str ''other''), Some (Str ''why'')))"
proof -
  have ks: "[''region''] = injectionKeysOf
       (Schema ''object''
            (Some [(''region'', Schema ''string'' None None None None),
                   (''tenant'', Schema ''string'' None None None None),
                   (''question'', Schema ''string'' None None None None)])
            (Some [''region'', ''tenant'', ''question'']) None None)
       [''region'', ''tenant'']
       (excludeFieldsFromPassthrough \<lparr> debug = False, disableSmartModelRouting = False,
          excludeFieldsFromPassthrough = [''tenant''],
          canConfigureSmartModelRouting = False \<rparr>)"
    by (simp add: injectionKeysOf_def)
  have ps: "parameters \<lparr> name = ''childAgent'', description_f = ''answers regional questions'',
          parameters = Some (Schema ''object''
            (Some [(''region'', Schema ''string'' None None None None),
                   (''tenant'', Schema ''string'' None None None None),
                   (''question'', Schema ''string'' None None None None)])
            (Some [''region'', ''tenant'', ''question'']) None None),
          func = (\<lambda>(a :: string \<rightharpoonup> example_value) (u :: unit).
                    ([], (a ''region'', a ''tenant'', a ''question''))) \<rparr>
      = Some (Schema ''object''
            (Some [(''region'', Schema ''string'' None None None None),
                   (''tenant'', Schema ''string'' None None None None),
                   (''question'', Schema ''string'' None None None None)])
            (Some [''region'', ''tenant'', ''question'']) None None)"
    by simp
  show ?thesis
    using passthrough_projection [OF ps ks refl, of exampleRuntime
        "plainObject [''region'' \<mapsto> Str ''eu'', ''tenant'' \<mapsto> Str ''acme'']" None]
    by (simp add: removePropertiesFromSchema_def AList.delete_eq hasProperty_def
        getProperty_def plainObject_def objectPrototypeMembers_def)
qed

text \<open>
  C9, as stated, fails on the code. The parent's values are an object literal without
  properties and the injection key is \<open>constructor\<close>: the key is no own property of the
  parent's values, yet \<open>pick\<close> copies the member the object inherits, and the wrapped
  invocation runs with it instead of the caller's \<open>us\<close>.
\<close>

theorem pick_inherited_key_counterexample:
  "own (plainObject Map.empty) ''constructor'' = None
   \<and> pick (protoEffect exampleRuntime) (plainObject Map.empty) [''constructor''] ''constructor''
     = Some (Inherited ''constructor'')
   \<and> func
       (processChildAgentFunction exampleRuntime
          \<lparr> name = ''childAgent'', description_f = ''answers regional questions'',
            parameters = Some (Schema ''object''
              (Some [(''constructor'', Schema ''string'' None None None None)])
              (Some [''constructor'']) None None),
            func = (\<lambda>(a :: string \<rightharpoonup> example_value) (u :: unit). ([], a ''constructor'')) \<rparr>
          (plainObject Map.empty)
          [''constructor''] None
          \<lparr> debug = False, disableSmartModelRouting = False,
            excludeFieldsFromPassthrough = [], canConfigureSmartModelRouting = False \<rparr>)
       [''constructor'' \<mapsto> Str ''us''] ()
     = ([], Some (Inherited ''constructor''))"
  by (simp add: injectionKeysOf_def processChildAgentFunction_def pick_def pickStep_def
      assignProperty_def hasProperty_def getProperty_def plainObject_def exampleRuntime_def
      objectPrototypeMembers_def Let_def)

text \<open>
  C9, amended. \<open>pick\<close> copies nothing for a key that is not an injection key. An
  injection key that is not \<open>in\<close> the parent's values object, neither as an own nor as
  an inherited property, is not copied, so the wrapped invocation keeps the caller's
  argument for it (or its absence). An injection key other than \<open>__proto__\<close> that is
  \<open>in\<close> the object, own or inherited, is copied with the value the object yields for
  it, which replaces the caller's argument.
\<close>

theorem pick_skips_absent_parent_values:
  assumes "parameters childFunction = Some ps"
    and "ks = injectionKeysOf ps parentInputKeys (excludeFieldsFromPassthrough opts)"
    and "k \<in> set ks"
  shows "func (processChildAgentFunction js childFunction parentValues parentInputKeys
                 modelList opts) childArgs funcOptions
        = (case func childFunction (childArgs ++ pick (protoEffect js) parentValues ks)
                  funcOptions of
             (out, res) \<Rightarrow>
               ((if debug opts
                 then [''Function Params: ''
                       @ stringify js (childArgs ++ pick (protoEffect js) parentValues ks)]
                 else []) @ out, res))
    \<and> (\<not> hasProperty parentValues k \<longrightarrow>
          pick (protoEffect js) parentValues ks k = None
          \<and> (childArgs ++ pick (protoEffect js) parentValues ks) k = childArgs k)
    \<and> (hasProperty parentValues k \<and> k \<noteq> ''__proto__'' \<longrightarrow>
          getProperty parentValues k \<noteq> None
          \<and> pick (protoEffect js) parentValues ks k = getProperty parentValues k
          \<and> (childArgs ++ pick (protoEffect js) parentValues ks) k = getProperty parentValues k)
    \<and> (\<forall>k'. k' \<notin> set ks \<longrightarrow>
          pick (protoEffect js) parentValues ks k' = None
          \<and> (childArgs ++ pick (protoEffect js) parentValues ks) k' = childArgs k')"
proof -
  from assms(3) have ne: "ks \<noteq> []" by auto
  have call: "func (processChildAgentFunction js childFunction parentValues parentInputKeys
                 modelList opts) childArgs funcOptions
        = (case func childFunction (childArgs ++ pick (protoEffect js) parentValues ks)
                  funcOptions of
             (out, res) \<Rightarrow>
               ((if debug opts
                 then [''Function Params: ''
                       @ stringify js (childArgs ++ pick (protoEffect js) parentValues ks)]
                 else []) @ out, res))"
    using processChild_func [OF assms(1,2)] ne by simp
  have absent: "\<not> hasProperty parentValues k \<longrightarrow>
          pick (protoEffect js) parentValues ks k = None
          \<and> (childArgs ++ pick (protoEffect js) parentValues ks) k = childArgs k"
    by (simp add: pick_apply map_add_def hasProperty_getProperty)
  have present: "hasProperty parentValues k \<and> k \<noteq> ''__proto__'' \<longrightarrow>
          getProperty parentValues k \<noteq> None
          \<and> pick (protoEffect js) parentValues ks k = getProperty parentValues k
          \<and> (childArgs ++ pick (protoEffect js) parentValues ks) k = getProperty parentValues k"
    using assms(3) by (auto simp: pick_apply map_add_def hasProperty_getProperty)
  have others: "\<forall>k'. k' \<notin> set ks \<longrightarrow>
          pick (protoEffect js) parentValues ks k' = None
          \<and> (childArgs ++ pick (protoEffect js) parentValues ks) k' = childArgs k'"
  proof (intro allI impI)
    fix k'
    assume out: "k' \<notin> set ks"
    then have "count_list ks k' = 0"
      by (simp add: count_list_0_iff)
    with out have "pick (protoEffect js) parentValues ks k' = None"
      by (cases "k' = ''__proto__''") (simp_all add: pick_apply split: option.splits)
    then show "pick (protoEffect js) parentValues ks k' = None
          \<and> (childArgs ++ pick (protoEffect js) parentValues ks) k' = childArgs k'"
      by (simp add: map_add_def)
  qed
  from call absent present others show ?thesis by blast
qed

theorem pick_skips_absent_parent_values_witness:
  "func
     (processChildAgentFunction exampleRuntime
        \<lparr> name = ''childAgent'', description_f = ''answers regional questions'',
          parameters = Some (Schema ''object''
            (Some [(''region'', Schema ''string'' None None None None),
                   (''question'', Schema ''string'' None None None None)])
            (Some [''region'', ''question'']) None None),
          func = (\<lambda>(a :: string \<rightharpoonup> example_value) (u :: unit).
                    ([], (a ''region'', a ''question''))) \<rparr>
        (plainObject [''question'' \<mapsto> Str ''parent question'']) [''region''] None
        \<lparr> debug = False, disableSmartModelRouting = False,
          excludeFieldsFromPassthrough = [],
          canConfigureSmartModelRouting = False \<rparr>)
     [''region'' \<mapsto> Str ''us'', ''question'' \<mapsto> Str ''why''] ()
   = ([], (Some (Str ''us''), Some (Str ''why'')))
   \<and> func
     (processChildAgentFunction exampleRuntime
        \<lparr> name = ''childAgent'', description_f = ''answers regional questions'',
          parameters = Some (Schema ''object''
            (Some [(''region'', Schema ''string'' None None None None),
                   (''question'', Schema ''string'' None None None None)])
            (Some [''region'', ''question'']) None None),
          func = (\<lambda>(a :: string \<rightharpoonup> example_value) (u :: unit).
                    ([], (a ''region'', a ''question''))) \<rparr>
        (plainObject [''region'' \<mapsto> Str ''eu'']) [''region''] None
        \<lparr> debug = False, disableSmartModelRouting = False,
          excludeFieldsFromPassthrough = [],
          canConfigureSmartModelRouting = False \<rparr>)
     [''region'' \<mapsto> Str ''us'', ''question'' \<mapsto> Str ''why''] ()
   = ([], (Some (Str ''eu''), Some (Str ''why'')))"
proof -
  have ks: "[''region''] = injectionKeysOf
       (Schema ''object''
            (Some [(''region'', Schema ''string'' None None None None),
                   (''question'', Schema ''string'' None None None None)])
            (Some [''region'', ''question'']) None None)
       [''region'']
       (excludeFieldsFromPassthrough \<lparr> debug = False, disableSmartModelRouting = False,
          excludeFieldsFromPassthrough = [],
          canConfigureSmartModelRouting = False \<rparr>)"
    by (simp add: injectionKeysOf_def)
  have ps: "parameters \<lparr> name = ''childAgent'', description_f = ''answers regional questions'',
          parameters = Some (Schema ''object''
            (Some [(''region'', Schema ''string'' None None None None),
                   (''question'', Schema ''string'' None None None None)])
            (Some [''region'', ''question'']) None None),
          func = (\<lambda>(a :: string \<rightharpoonup> example_value) (u :: unit).
                    ([], (a ''region'', a ''question''))) \<rparr>
      = Some (Schema ''object''
            (Some [(''region'', Schema ''string'' None None None None),
                   (''question'', Schema ''string'' None None None None)])
            (Some [''region'', ''question'']) None None)"
    by simp
  have k: "''region'' \<in> set [''region'']" by simp
  have absent: "\<not> hasProperty (plainObject [''question'' \<mapsto> Str ''parent question'']) ''region''"
    and present: "hasProperty (plainObject [''region'' \<mapsto> Str ''eu'']) ''region''"
      "getProperty (plainObject [''region'' \<mapsto> Str ''eu'']) ''region'' = Some (Str ''eu'')"
    by (simp_all add: hasProperty_def getProperty_def plainObject_def objectPrototypeMembers_def)
  have other: "''question'' \<notin> set [''region'']" by simp
  from pick_skips_absent_parent_values [OF ps ks k, of exampleRuntime
        "plainObject [''question'' \<mapsto> Str ''parent question'']" None
        "[''region'' \<mapsto> Str ''us'', ''question'' \<mapsto> Str ''why'']" "()"] absent other
  have first: "func
     (processChildAgentFunction exampleRuntime
        \<lparr> name = ''childAgent'', description_f = ''answers regional questions'',
          parameters = Some (Schema ''object''
            (Some [(''region'', Schema ''string'' None None None None),
                   (''question'', Schema ''string'' None None None None)])
            (Some [''region'', ''question'']) None None),
          func = (\<lambda>(a :: string \<rightharpoonup> example_value) (u :: unit).
                    ([], (a ''region'', a ''question''))) \<rparr>
        (plainObject [''question'' \<mapsto> Str ''parent question'']) [''region''] None
        \<lparr> debug = False, disableSmartModelRouting = False,
          excludeFieldsFromPassthrough = [],
          canConfigureSmartModelRouting = False \<rparr>)
     [''region'' \<mapsto> Str ''us'', ''question'' \<mapsto> Str ''why''] ()
   = ([], (Some (Str ''us''), Some (Str ''why'')))"
    by simp
  from pick_skips_absent_parent_values [OF ps ks k, of exampleRuntime
        "plainObject [''region'' \<mapsto> Str ''eu'']" None
        "[''region'' \<mapsto> Str ''us'', ''question'' \<mapsto> Str ''why'']" "()"] present other
  have second: "func
     (processChildAgentFunction exampleRuntime
        \<lparr> name = ''childAgent'', description_f = ''answers regional questions'',
          parameters = Some (Schema ''object''
            (Some [(''region'', Schema ''string'' None None None None),
                   (''question'', Schema ''string'' None None None None)])
            (Some [''region'', ''question'']) None None),
          func = (\<lambda>(a :: string \<rightharpoonup> example_value) (u :: unit).
                    ([], (a ''region'', a ''question''))) \<rparr>
        (plainObject [''region'' \<mapsto> Str ''eu'']) [''region''] None
        \<lparr> debug = False, disableSmartModelRouting = False,
          excludeFieldsFromPassthrough = [],
          canConfigureSmartModelRouting = False \<rparr>)
     [''region'' \<mapsto> Str ''us'', ''question'' \<mapsto> Str ''why''] ()
   = ([], (Some (Str ''eu''), Some (Str ''why'')))"
    by simp
  from first second show ?thesis by simp
qed

text \<open>
  C1. A child callable with a parameter schema that shares no input field with the
  parent, a model list, routing not disabled and the child's feature flag set: the
  adapter returns the child's schema as it is, without the \<open>model\<close> field that
  \<open>addModelParameter\<close> would add.
\<close>

theorem model_routing_skipped_for_schema:
  "injectionKeysOf
     (Schema ''object'' (Some [(''question'', Schema ''string'' None None None None)])
        (Some [''question'']) None None)
     [''topic''] [] = []
   \<and> parameters
       (processChildAgentFunction exampleRuntime
          \<lparr> name = ''childAgent'', description_f = ''answers any question asked'',
            parameters = Some (Schema ''object''
              (Some [(''question'', Schema ''string'' None None None None)])
              (Some [''question'']) None None),
            func = (\<lambda>(a :: string \<rightharpoonup> example_value) (u :: unit). ([], ())) \<rparr>
          (plainObject [''topic'' \<mapsto> Str ''rivers''])
          [''topic'']
          (Some [\<lparr> key = ''fast'', model = ''m-small'', description_m = ''quick answers'' \<rparr>])
          \<lparr> debug = False, disableSmartModelRouting = False,
            excludeFieldsFromPassthrough = [],
            canConfigureSmartModelRouting = True \<rparr>)
     = Some (Schema ''object'' (Some [(''question'', Schema ''string'' None None None None)])
         (Some [''question'']) None None)
   \<and> propertyKeys
       (addModelParameter
          (Some (Schema ''object'' (Some [(''question'', Schema ''string'' None None None None)])
             (Some [''question'']) None None))
          [\<lparr> key = ''fast'', model = ''m-small'', description_m = ''quick answers'' \<rparr>])
     = [''question'', ''model'']"
  by (simp add: injectionKeysOf_def processChildAgentFunction_def addModelParameter_def
      propertyKeys_def propertiesOf_def)

text \<open>
  C8. Provided the signature can be built: a name shorter than 5 characters (the empty
  name included) makes construction fail with the error that names the agent name;
  otherwise a description shorter than 20 characters (the empty one included) makes it
  fail with the error that names the agent description; construction succeeds only if
  neither is the case, and then it does succeed, with the given name and description,
  whenever the program can be built.
\<close>

theorem agent_construction_validation:
  assumes "newSignature env (arg_signature args) (arg_description args) = Inr sg"
  shows "(length (arg_name args) < 5 \<longrightarrow>
            newAxAgent env args opts
              = Inl (Error (''Agent name must be at least 10 characters (more descriptive): ''
                            @ arg_name args)))
    \<and> (5 \<le> length (arg_name args) \<and> length (arg_description args) < 20 \<longrightarrow>
            newAxAgent env args opts
              = Inl (Error (''Agent description must be at least 20 characters (explain in detail what the agent does): ''
                            @ arg_description args)))
    \<and> (\<forall>a. newAxAgent env args opts = Inr a \<longrightarrow>
            5 \<le> length (arg_name args) \<and> 20 \<le> length (arg_description args))
    \<and> (\<forall>prog. 5 \<le> length (arg_name args) \<and> 20 \<le> length (arg_description args)
            \<and> newProgram env sg (case arg_agents args of Some as \<Rightarrow> as | None \<Rightarrow> []) = Inr prog
          \<longrightarrow> (\<exists>a. newAxAgent env args opts = Inr a
                 \<and> agent_name a = arg_name args
                 \<and> agent_description a = arg_description args
                 \<and> agent_program a = prog))"
proof -
  have short_name: "length (arg_name args) < 5 \<longrightarrow>
            newAxAgent env args opts
              = Inl (Error (''Agent name must be at least 10 characters (more descriptive): ''
                            @ arg_name args))"
    using assms by (simp add: newAxAgent_def Let_def)
  have short_description:
    "5 \<le> length (arg_name args) \<and> length (arg_description args) < 20 \<longrightarrow>
            newAxAgent env args opts
              = Inl (Error (''Agent description must be at least 20 characters (explain in detail what the agent does): ''
                            @ arg_description args))"
    using assms by (auto simp: newAxAgent_def Let_def)
  have only_valid: "\<forall>a. newAxAgent env args opts = Inr a \<longrightarrow>
            5 \<le> length (arg_name args) \<and> 20 \<le> length (arg_description args)"
    using assms by (auto simp: newAxAgent_def Let_def split: if_splits)
  have valid: "\<forall>prog. 5 \<le> length (arg_name args) \<and> 20 \<le> length (arg_description args)
            \<and> newProgram env sg (case arg_agents args of Some as \<Rightarrow> as | None \<Rightarrow> []) = Inr prog
          \<longrightarrow> (\<exists>a. newAxAgent env args opts = Inr a
                 \<and> agent_name a = arg_name args
                 \<and> agent_description a = arg_description args
                 \<and> agent_program a = prog)"
    using assms by (auto simp: newAxAgent_def Let_def)
  from short_name short_description only_valid valid show ?thesis by blast
qed

theorem agent_construction_validation_witness:
  "newAxAgent
     \<lparr> newSignature = (\<lambda>(i :: string) d. Inr i),
       toJSONSchema = (\<lambda>sg. Schema ''object'' (Some []) (Some []) None None),
       getInputFieldNames = (\<lambda>sg. []),
       newProgram = (\<lambda>sg (cs :: (unit, unit, unit) agentic list). Inr ()) \<rparr>
     \<lparr> arg_ai = None, arg_name = ''four'', arg_description = ''does exactly a thing'',
       arg_signature = ''question -> answer'', arg_agents = None, arg_functions = None \<rparr>
     None
   = Inl (Error ''Agent name must be at least 10 characters (more descriptive): four'')
   \<and> newAxAgent
     \<lparr> newSignature = (\<lambda>(i :: string) d. Inr i),
       toJSONSchema = (\<lambda>sg. Schema ''object'' (Some []) (Some []) None None),
       getInputFieldNames = (\<lambda>sg. []),
       newProgram = (\<lambda>sg (cs :: (unit, unit, unit) agentic list). Inr ()) \<rparr>
     \<lparr> arg_ai = None, arg_name = ''agent'', arg_description = ''does exactly a thin'',
       arg_signature = ''question -> answer'', arg_agents = None, arg_functions = None \<rparr>
     None
   = Inl (Error ''Agent description must be at least 20 characters (explain in detail what the agent does): does exactly a thin'')
   \<and> (\<exists>a. newAxAgent
     \<lparr> newSignature = (\<lambda>(i :: string) d. Inr i),
       toJSONSchema = (\<lambda>sg. Schema ''object'' (Some []) (Some []) None None),
       getInputFieldNames = (\<lambda>sg. []),
       newProgram = (\<lambda>sg (cs :: (unit, unit, unit) agentic list). Inr ()) \<rparr>
     \<lparr> arg_ai = None, arg_name = ''agent'', arg_description = ''does exactly a thing'',
       arg_signature = ''question -> answer'', arg_agents = None, arg_functions = None \<rparr>
     None = Inr a \<and> agent_name a = ''agent'' \<and> agent_description a = ''does exactly a thing'')"
  using agent_construction_validation [of
      "\<lparr> newSignature = (\<lambda>(i :: string) d. Inr i),
       toJSONSchema = (\<lambda>sg. Schema ''object'' (Some []) (Some []) None None),
       getInputFieldNames = (\<lambda>sg. []),
       newProgram = (\<lambda>sg (cs :: (unit, unit, unit) agentic list). Inr ()) \<rparr>"
      "\<lparr> arg_ai = None, arg_name = ''four'', arg_description = ''does exactly a thing'',
       arg_signature = ''question -> answer'', arg_agents = None, arg_functions = None \<rparr>"
      "''question -> answer''" None]
    agent_construction_validation [of
      "\<lparr> newSignature = (\<lambda>(i :: string) d. Inr i),
       toJSONSchema = (\<lambda>sg. Schema ''object'' (Some []) (Some []) None None),
       getInputFieldNames = (\<lambda>sg. []),
       newProgram = (\<lambda>sg (cs :: (unit, unit, unit) agentic list). Inr ()) \<rparr>"
      "\<lparr> arg_ai = None, arg_name = ''agent'', arg_description = ''does exactly a thin'',
       arg_signature = ''question -> answer'', arg_agents = None, arg_functions = None \<rparr>"
      "''question -> answer''" None]
    agent_construction_validation [of
      "\<lparr> newSignature = (\<lambda>(i :: string) d. Inr i),
       toJSONSchema = (\<lambda>sg. Schema ''object'' (Some []) (Some []) None None),
       getInputFieldNames = (\<lambda>sg. []),
       newProgram = (\<lambda>sg (cs :: (unit, unit, unit) agentic list). Inr ()) \<rparr>"
      "\<lparr> arg_ai = None, arg_name = ''agent'', arg_description = ''does exactly a thing'',
       arg_signature = ''question -> answer'', arg_agents = None, arg_functions = None \<rparr>"
      "''question -> answer''" None]
  by simp

section \<open>Properties of the generation loop\<close>

lemma ai_generate_frame:
  "self (snd (ai_generate env p cnf sid w)) = self w"
  "arrays (snd (ai_generate env p cnf sid w)) = arrays w"
  "nextRef (snd (ai_generate env p cnf sid w)) = nextRef w"
  by (simp_all add: ai_generate_def Let_def)

lemma mem_add_frame:
  "self (mem_add t sid w) = self w"
  "arrays (mem_add t sid w) = arrays w"
  "nextRef (mem_add t sid w) = nextRef w"
  by (simp_all add: mem_add_def)

lemma recordFunction_frame:
  "self (recordFunction fe res w) = self w"
  "arrays (recordFunction fe res w) = arrays w"
  "nextRef (recordFunction fe res w) = nextRef w"
  by (simp_all add: recordFunction_def split: option.splits)

lemma recordParsingError_frame:
  "self (recordParsingError e v w) = self w"
  "arrays (recordParsingError e v w) = arrays w"
  "nextRef (recordParsingError e v w) = nextRef w"
  by (simp_all add: recordParsingError_def split: option.splits)

lemma recordFinalError_frame:
  "self (recordFinalError e w) = self w"
  "arrays (recordFinalError e w) = arrays w"
  "nextRef (recordFinalError e w) = nextRef w"
  by (simp_all add: recordFinalError_def split: option.splits)

lemma functionStep_frame:
  "self (snd (functionStep env q sid cnf fns prev w)) = self w
   \<and> arrays (snd (functionStep env q sid cnf fns prev w)) = arrays w
   \<and> nextRef (snd (functionStep env q sid cnf fns prev w)) = nextRef w"
  by (simp add: functionStep_def ai_generate_def Let_def mem_add_def recordFunction_def
      split: sum.splits)

lemma functionLoop_frame:
  "self (snd (functionLoop env q sid cnf fns n i prev w)) = self w
   \<and> arrays (snd (functionLoop env q sid cnf fns n i prev w)) = arrays w
   \<and> nextRef (snd (functionLoop env q sid cnf fns n i prev w)) = nextRef w"
proof (induction env q sid cnf fns n i prev w rule: functionLoop.induct)
  case (1 env q sid cnf fns n i prev w)
  show ?case
  proof (cases "i < n")
    case False
    then show ?thesis by (simp add: functionLoop.simps)
  next
    case True
    obtain out w' where step: "functionStep env q sid cnf fns prev w = (out, w')"
      by (cases "functionStep env q sid cnf fns prev w")
    with functionStep_frame [of env q sid cnf fns prev w]
    have fr: "self w' = self w" "arrays w' = arrays w" "nextRef w' = nextRef w"
      by simp_all
    show ?thesis
    proof (cases out)
      case (Done r)
      with True step fr show ?thesis
        by (simp add: functionLoop.simps [of env q sid cnf fns n i prev w])
    next
      case (Continue val)
      with True step "1.IH" fr show ?thesis
        by (simp add: functionLoop.simps [of env q sid cnf fns n i prev w])
    qed
  qed
qed









lemma fixSyntax_frame:
  "self (snd (fixSyntax env err val sid w)) = self w
   \<and> arrays (snd (fixSyntax env err val sid w)) = arrays w
   \<and> nextRef (snd (fixSyntax env err val sid w)) = nextRef w"
  by (simp add: fixSyntax_def ai_generate_def Let_def)

lemma retryLoop_frame:
  "self (snd (retryLoop env kv sch sid retryCount i res val w)) = self w
   \<and> arrays (snd (retryLoop env kv sch sid retryCount i res val w)) = arrays w
   \<and> nextRef (snd (retryLoop env kv sch sid retryCount i res val w)) = nextRef w"
proof (induction env kv sch sid retryCount i res val w rule: retryLoop.induct)
  case (1 env kv sch sid retryCount i res val w)
  show ?case
  proof (cases "i < retryCount")
    case False
    then show ?thesis by (simp add: retryLoop.simps)
  next
    case lt: True
    show ?thesis
    proof (cases "decode env kv sch val")
      case (Inr fvalue)
      with lt show ?thesis
        by (simp add: retryLoop.simps [of env kv sch sid retryCount i res val w])
    next
      case (Inl err)
      let ?w1 = "recordParsingError err val w"
      show ?thesis
      proof (cases "i < retryCount - 1")
        case True
        with lt Inl "1.IH"(1) show ?thesis
          by (simp add: retryLoop.simps [of env kv sch sid retryCount i res val w]
              recordParsingError_frame)
      next
        case False
        obtain out w2 where fx: "fixSyntax env err val sid ?w1 = (out, w2)"
          by (cases "fixSyntax env err val sid ?w1")
        with fixSyntax_frame [of env err val sid ?w1]
        have fr: "self w2 = self w" "arrays w2 = arrays w" "nextRef w2 = nextRef w"
          by (simp_all add: recordParsingError_frame)
        show ?thesis
        proof (cases out)
          case (Inl e)
          with lt \<open>decode env kv sch val = Inl err\<close> False fx fr show ?thesis
            by (simp add: retryLoop.simps [of env kv sch sid retryCount i res val w])
        next
          case (Inr fixedValue)
          with lt \<open>decode env kv sch val = Inl err\<close> False fx fr
            "1.IH"(2)
          show ?thesis
            by (simp add: retryLoop.simps [of env kv sch sid retryCount i res val w])
        qed
      qed
    qed
  qed
qed

lemma prepareFunctions_shared:
  assumes "functions_c (conf (self w)) = Some r"
    and "responseConfig (conf (self w)) = Some rc"
    and "schema rc = Some s"
  shows "prepareFunctions env w
           = ((conf (self w))\<lparr> stopSequences := stopSequences (conf (self w)) @ [''Result:''] \<rparr>,
              r, w\<lparr> arrays := (arrays w)(r := arrays w r @ [finalResultFunc env s]) \<rparr>)"
  using assms by (simp add: prepareFunctions_def Let_def)

lemma generateWithFunctions_shared:
  assumes "functions_c (conf (self w)) = Some r"
    and "responseConfig (conf (self w)) = Some rc"
    and "schema rc = Some s"
  shows "arrays (snd (generateWithFunctions env query sessionId w))
           = (arrays w)(r := arrays w r @ [finalResultFunc env s])"
    and "self (snd (generateWithFunctions env query sessionId w)) = self w"
    and "nextRef (snd (generateWithFunctions env query sessionId w)) = nextRef w"
  by (simp_all add: generateWithFunctions_def prepareFunctions_shared [OF assms]
      functionLoop_frame)

lemma private_generate_shared:
  assumes "functions_c (conf (self w)) = Some r"
    and "responseConfig (conf (self w)) = Some rc"
    and "schema rc = Some s"
    and "arrays w r \<noteq> []"
  shows "arrays (snd (private_generate env query sessionId w))
           = (arrays w)(r := arrays w r @ [finalResultFunc env s])
         \<and> self (snd (private_generate env query sessionId w)) = self w"
proof -
  obtain out w1 where g: "generateWithFunctions env query sessionId w = (out, w1)"
    by (cases "generateWithFunctions env query sessionId w")
  with generateWithFunctions_shared [OF assms(1-3), of env query sessionId]
  have fr: "arrays w1 = (arrays w)(r := arrays w r @ [finalResultFunc env s])" "self w1 = self w"
    by simp_all
  have h: "generateHandler env query sessionId w
             = (case out of
                  Inl e \<Rightarrow> (Inl e, w1)
                | Inr (res, val) \<Rightarrow> retryLoop env (keyValue rc) (schema rc) sessionId 3 0 res val w1)"
    using assms g by (simp add: generateHandler_def Let_def split: sum.splits prod.splits)
  have "arrays (snd (generateHandler env query sessionId w)) = arrays w1
        \<and> self (snd (generateHandler env query sessionId w)) = self w1"
    unfolding h by (simp add: retryLoop_frame split: sum.splits prod.splits)
  then have "arrays (snd (private_generate env query sessionId w)) = arrays w1
        \<and> self (snd (private_generate env query sessionId w)) = self w1"
    by (cases "generateHandler env query sessionId w")
      (auto simp: private_generate_def recordFinalError_frame split: sum.splits)
  with fr show ?thesis by simp
qed

text \<open>
  C10. When the configuration refers to a function array and declares an output schema,
  a call of \<open>_generateWithFunctions\<close> leaves the array that the stored configuration
  refers to one \<open>finalResult\<close> entry longer, whatever the outcome of the call, and changes
  no other array and nothing of the prompt object, whose configuration still refers to
  that array. With a non-empty array the same holds for a whole run of \<open>_generate\<close>, and
  a second run appends a second entry.
\<close>

theorem final_result_accumulates_in_configured_array:
  assumes "functions_c (conf (self w)) = Some r"
    and "responseConfig (conf (self w)) = Some rc"
    and "schema rc = Some s"
  shows "arrays (snd (generateWithFunctions env query sessionId w))
           = (arrays w)(r := arrays w r @ [finalResultFunc env s])
    \<and> self (snd (generateWithFunctions env query sessionId w)) = self w
    \<and> (arrays w r \<noteq> [] \<longrightarrow>
          arrays (snd (private_generate env query sessionId w))
            = (arrays w)(r := arrays w r @ [finalResultFunc env s])
          \<and> self (snd (private_generate env query sessionId w)) = self w
          \<and> arrays (snd (private_generate env query' sessionId'
                            (snd (private_generate env query sessionId w)))) r
              = arrays w r @ [finalResultFunc env s, finalResultFunc env s])"
proof -
  have one: "arrays w r \<noteq> [] \<longrightarrow>
          arrays (snd (private_generate env query sessionId w))
            = (arrays w)(r := arrays w r @ [finalResultFunc env s])
          \<and> self (snd (private_generate env query sessionId w)) = self w"
    using private_generate_shared [OF assms] by blast
  have two: "arrays (snd (private_generate env query' sessionId'
                            (snd (private_generate env query sessionId w)))) r
              = arrays w r @ [finalResultFunc env s, finalResultFunc env s]"
    if ne: "arrays w r \<noteq> []"
  proof -
    let ?w1 = "snd (private_generate env query sessionId w)"
    from one ne have a1: "arrays ?w1 = (arrays w)(r := arrays w r @ [finalResultFunc env s])"
      and s1: "self ?w1 = self w"
      by simp_all
    from s1 assms have c: "functions_c (conf (self ?w1)) = Some r"
      "responseConfig (conf (self ?w1)) = Some rc"
      by simp_all
    from a1 have "arrays ?w1 r \<noteq> []" by simp
    from private_generate_shared [OF c assms(3) this, of env query' sessionId'] a1
    show ?thesis by simp
  qed
  from one two generateWithFunctions_shared(1,2) [OF assms, of env query sessionId]
  show ?thesis by blast
qed

theorem final_result_accumulates_in_configured_array_witness:
  "arrays
     (snd (private_generate
        (scriptedEnv (\<lambda>k. ''finalResult'')
           (\<lambda>v. \<lparr> name_fe = v, result_fe = Some ''{}'' \<rparr>)
           (\<lambda>v. if v = ''{}'' then Inr () else Inl (Error ''Unexpected token'')))
        ''q'' None
        (initialWorld (schemaConfig (Some 0)) (\<lambda>r. if r = 0 then [''search''] else []))))
     0
   = [''search'', ''finalResult'']
   \<and> arrays
     (snd (private_generate
        (scriptedEnv (\<lambda>k. ''finalResult'')
           (\<lambda>v. \<lparr> name_fe = v, result_fe = Some ''{}'' \<rparr>)
           (\<lambda>v. if v = ''{}'' then Inr () else Inl (Error ''Unexpected token'')))
        ''again'' None
        (snd (private_generate
           (scriptedEnv (\<lambda>k. ''finalResult'')
              (\<lambda>v. \<lparr> name_fe = v, result_fe = Some ''{}'' \<rparr>)
              (\<lambda>v. if v = ''{}'' then Inr () else Inl (Error ''Unexpected token'')))
           ''q'' None
           (initialWorld (schemaConfig (Some 0)) (\<lambda>r. if r = 0 then [''search''] else []))))))
     0
   = [''search'', ''finalResult'', ''finalResult'']"
proof -
  have c: "functions_c (conf (self
             (initialWorld (schemaConfig (Some 0)) (\<lambda>r. if r = 0 then [''search''] else []))))
           = Some 0"
    "responseConfig (conf (self
             (initialWorld (schemaConfig (Some 0)) (\<lambda>r. if r = 0 then [''search''] else []))))
           = Some \<lparr> keyValue = False, schema = Some () \<rparr>"
    "schema \<lparr> keyValue = False, schema = Some () \<rparr> = Some ()"
    by (simp_all add: initialWorld_def schemaConfig_def newAIPrompt_def)
  show ?thesis
    using final_result_accumulates_in_configured_array [OF c,
        of "scriptedEnv (\<lambda>k. ''finalResult'')
           (\<lambda>v. \<lparr> name_fe = v, result_fe = Some ''{}'' \<rparr>)
           (\<lambda>v. if v = ''{}'' then Inr () else Inl (Error ''Unexpected token''))"
           "''q''" None "''again''" None]
    by (simp add: initialWorld_def scriptedEnv_def)
qed

text \<open>
  Once a value has failed to decode, the retry loop never returns a value: it decodes the
  same value again twice and ends with the error of \<open>fixSyntax\<close> or with its own.
\<close>

lemma retryLoop_never_recovers:
  assumes "decode env kv sch val = Inl err"
  shows "\<exists>e. fst (retryLoop env kv sch sessionId 3 0 res val w) = Inl e"
proof -
  let ?w1 = "recordParsingError err val w"
  let ?w2 = "recordParsingError err val ?w1"
  let ?w3 = "recordParsingError err val ?w2"
  have unfold: "retryLoop env kv sch sessionId 3 0 res val w
          = (case fixSyntax env err val sessionId ?w3 of
               (Inl e, w4) \<Rightarrow> (Inl e, w4)
             | (Inr fixedValue, w4) \<Rightarrow> (Inl (Error ''Unable to fix result syntax''), w4))"
    using assms
    by (simp add: retryLoop.simps [of _ _ _ _ 3 0] retryLoop.simps [of _ _ _ _ 3 "Suc 0"]
        retryLoop.simps [of _ _ _ _ 3 "Suc (Suc 0)"] retryLoop.simps [of _ _ _ _ 3 "Suc (Suc (Suc 0))"]
        Let_def split: prod.splits sum.splits)
  show ?thesis
    unfolding unfold by (auto split: prod.splits sum.splits)
qed

text \<open>
  C2. With no callables, a service whose first answer does not decode and whose next
  answer does: the loop decodes the first answer three times, asks the service for a
  repair only after the third failure, never decodes the repaired answer, and fails with
  ``Unable to fix result syntax'' after two requests in all.
\<close>

theorem repair_answer_never_decoded:
  "fst (private_generate
          (scriptedEnv (\<lambda>k. if k = 1 then ''oops'' else ''{}'')
             (\<lambda>v. \<lparr> name_fe = ''search'', result_fe = None \<rparr>)
             (\<lambda>v. if v = ''{}'' then Inr () else Inl (Error ''Unexpected token'')))
          ''q'' None (initialWorld (schemaConfig None) (\<lambda>r. [])))
     = Inl (Error ''Unable to fix result syntax'')
   \<and> map prompt_rq (requests (snd (private_generate
          (scriptedEnv (\<lambda>k. if k = 1 then ''oops'' else ''{}'')
             (\<lambda>v. \<lparr> name_fe = ''search'', result_fe = None \<rparr>)
             (\<lambda>v. if v = ''{}'' then Inr () else Inl (Error ''Unexpected token'')))
          ''q'' None (initialWorld (schemaConfig None) (\<lambda>r. [])))))
     = [''q'' @ nl @ nl, ''qoops'' @ nl @ ''Syntax Error: Unexpected token'' @ nl @ ''oops'']
   \<and> decode
        (scriptedEnv (\<lambda>k. if k = 1 then ''oops'' else ''{}'')
           (\<lambda>v. \<lparr> name_fe = ''search'', result_fe = None \<rparr>)
           (\<lambda>v. if v = ''{}'' then Inr () else Inl (Error ''Unexpected token'')))
        False (Some ()) ''{}''
     = Inr (ObjectValue ())"
  by code_simp

end
